theory Spec2Isabelle
  imports Complex_Main "HOL-Library.Word"
begin

section \<open>Python values, errors and the configuration module\<close>

text \<open>
  The dictionaries the subsystems pass around hold strings, numbers, lists and nested
  dictionaries. A dictionary is an association list in insertion order; looking a key up
  is \<open>map_of\<close>. Strings are sequences of code points below 256. Clock readings
  (\<^verbatim>\<open>time.time()\<close>) and the other floating-point quantities are real numbers.
\<close>

datatype pyval =
    PNone
  | PBool bool
  | PInt int
  | PFloat real
  | PStr string
  | PList "pyval list"
  | PDict "(string \<times> pyval) list"

type_synonym pydict = "(string \<times> pyval) list"

datatype error = KeyError | TypeError | ValueError

text \<open>Python's truth value of an object (\<^verbatim>\<open>if x:\<close>, \<^verbatim>\<open>x or y\<close>).\<close>

fun truthy :: "pyval \<Rightarrow> bool" where
  "truthy PNone = False"
| "truthy (PBool b) = b"
| "truthy (PInt i) = (i \<noteq> 0)"
| "truthy (PFloat r) = (r \<noteq> 0)"
| "truthy (PStr s) = (s \<noteq> [])"
| "truthy (PList xs) = (xs \<noteq> [])"
| "truthy (PDict kvs) = (kvs \<noteq> [])"

text \<open>Lists and dictionaries cannot be members of a \<^verbatim>\<open>set\<close>.\<close>

fun hashable :: "pyval \<Rightarrow> bool" where
  "hashable (PList xs) = False"
| "hashable (PDict kvs) = False"
| "hashable v = True"

text \<open>\<^verbatim>\<open>d.get(k, default)\<close>\<close>

definition dict_get :: "pydict \<Rightarrow> string \<Rightarrow> pyval \<Rightarrow> pyval" where
  "dict_get d k dflt = (case map_of d k of None \<Rightarrow> dflt | Some v \<Rightarrow> v)"

text \<open>
  A regular expression of the fragment \<^verbatim>\<open>config.QUESTION_PATTERNS\<close> uses: literal
  text, alternation, concatenation and the anchors \<^verbatim>\<open>^\<close> and \<^verbatim>\<open>$\<close>.
\<close>

datatype regex =
    Lit string
  | Alt "regex list"
  | Cat regex regex
  | Bol
  | Eol

text \<open>
  \<^verbatim>\<open>config.py\<close>. The subsystems read the module's attributes when they run, so each
  operation takes the configuration as an argument; \<open>default_config\<close> holds the values
  the file assigns.
\<close>

record config =
  KEYFRAME_THRESHOLD :: real
  OCR_CONFIDENCE_THRESHOLD :: real
  AUDIO_SAMPLE_RATE :: nat
  AUDIO_CHUNK_SIZE :: nat
  SPEAKER_ID_THRESHOLD :: real
  SUMMARY_INTERVAL_SECONDS :: real
  MAX_MEMORY_CHUNKS :: nat
  QUESTION_PATTERNS :: "regex list"

definition default_config :: config where
  "default_config = \<lparr>
     KEYFRAME_THRESHOLD = 0.85,
     OCR_CONFIDENCE_THRESHOLD = 0.5,
     AUDIO_SAMPLE_RATE = 16000,
     AUDIO_CHUNK_SIZE = 1024,
     SPEAKER_ID_THRESHOLD = 0.75,
     SUMMARY_INTERVAL_SECONDS = 180,
     MAX_MEMORY_CHUNKS = 100,
     QUESTION_PATTERNS =
       [Cat (Lit ''?'') Eol,
        Cat Bol (Alt [Lit ''what'', Lit ''who'', Lit ''where'', Lit ''when'', Lit ''why'',
                      Lit ''how'', Lit ''can'', Lit ''could'', Lit ''would'', Lit ''is'',
                      Lit ''are'', Lit ''do'', Lit ''does'']),
        Alt [Lit ''tell me'', Lit ''explain'', Lit ''show me'', Lit ''help'']] \<rparr>"

section \<open>Memory subsystem\<close>

subsection \<open>\<^verbatim>\<open>collections.deque\<close> with a maximum length\<close>

datatype 'a deque = Deque (maxlen: nat) (items: "'a list")

text \<open>
  \<^verbatim>\<open>append\<close> adds on the right and, when the deque then exceeds its maximum length,
  drops one element on the left.
\<close>

definition deque_append :: "'a deque \<Rightarrow> 'a \<Rightarrow> 'a deque" where
  "deque_append d x =
     (let ys = items d @ [x]
      in Deque (maxlen d) (if maxlen d < length ys then tl ys else ys))"

definition deque_clear :: "'a deque \<Rightarrow> 'a deque" where
  "deque_clear d = Deque (maxlen d) []"

fun deque_extend :: "'a deque \<Rightarrow> 'a list \<Rightarrow> 'a deque" where
  "deque_extend d [] = d"
| "deque_extend d (x # xs) = deque_extend (deque_append d x) xs"

subsection \<open>\<^verbatim>\<open>MemoryChunk\<close>\<close>

record MemoryChunk =
  chunk_type :: string
  content :: pydict
  timestamp :: real

text \<open>
  \<^verbatim>\<open>self.timestamp = timestamp or time.time()\<close>: the clock is read when no timestamp is
  given and when the given one is falsy, that is 0.
\<close>

definition MemoryChunk_init :: "string \<Rightarrow> pydict \<Rightarrow> real option \<Rightarrow> real \<Rightarrow> MemoryChunk" where
  "MemoryChunk_init ty c ts now =
     \<lparr> chunk_type = ty, content = c,
       timestamp = (case ts of None \<Rightarrow> now | Some t \<Rightarrow> if t = 0 then now else t) \<rparr>"

text \<open>The dictionary \<^verbatim>\<open>to_dict\<close> builds; \<open>strftime\<close> renders the local time.\<close>

record chunk_dict =
  d_type :: string
  d_content :: pydict
  d_timestamp :: real
  d_time_str :: string

definition to_dict :: "(real \<Rightarrow> string) \<Rightarrow> MemoryChunk \<Rightarrow> chunk_dict" where
  "to_dict strftime c =
     \<lparr> d_type = chunk_type c, d_content = content c, d_timestamp = timestamp c,
       d_time_str = strftime (timestamp c) \<rparr>"

definition from_dict :: "chunk_dict \<Rightarrow> real \<Rightarrow> MemoryChunk" where
  "from_dict d now = MemoryChunk_init (d_type d) (d_content d) (Some (d_timestamp d)) now"

subsection \<open>\<^verbatim>\<open>MemorySubsystem\<close>\<close>

record MemorySubsystem =
  memory_chunks :: "MemoryChunk deque"
  summaries :: "MemoryChunk list"
  last_summary_time :: real
  session_start_time :: real
  total_interactions :: int

text \<open>The constructor reads the clock twice.\<close>

definition MemorySubsystem_init :: "config \<Rightarrow> real \<Rightarrow> real \<Rightarrow> MemorySubsystem" where
  "MemorySubsystem_init cfg t1 t2 =
     \<lparr> memory_chunks = Deque (MAX_MEMORY_CHUNKS cfg) [], summaries = [],
       last_summary_time = t1, session_start_time = t2, total_interactions = 0 \<rparr>"

definition add_keyframe :: "MemorySubsystem \<Rightarrow> pydict \<Rightarrow> real \<Rightarrow> MemorySubsystem" where
  "add_keyframe m frame_data now =
     (let chunk = MemoryChunk_init ''keyframe''
            [(''description'', PStr ''Visual keyframe captured''),
             (''ocr_text'', dict_get frame_data ''ocr_text'' (PStr [])),
             (''confidence'', dict_get frame_data ''confidence'' (PInt 0))] None now
      in m\<lparr>memory_chunks := deque_append (memory_chunks m) chunk\<rparr>)"

definition add_question :: "MemorySubsystem \<Rightarrow> pydict \<Rightarrow> real \<Rightarrow> error + MemorySubsystem" where
  "add_question m question_data now =
     (case map_of question_data ''text'' of
        None \<Rightarrow> Inl KeyError
      | Some t \<Rightarrow>
          (let chunk = MemoryChunk_init ''question''
                 [(''text'', t),
                  (''confidence'', dict_get question_data ''confidence'' (PFloat 1))] None now
           in Inr (m\<lparr>memory_chunks := deque_append (memory_chunks m) chunk,
                     total_interactions := total_interactions m + 1\<rparr>)))"

definition add_answer :: "MemorySubsystem \<Rightarrow> pydict \<Rightarrow> real \<Rightarrow> error + MemorySubsystem" where
  "add_answer m answer_data now =
     (case map_of answer_data ''text'' of
        None \<Rightarrow> Inl KeyError
      | Some t \<Rightarrow>
          (let chunk = MemoryChunk_init ''answer''
                 [(''text'', t),
                  (''question'', dict_get answer_data ''question'' (PStr []))] None now
           in Inr (m\<lparr>memory_chunks := deque_append (memory_chunks m) chunk\<rparr>)))"

text \<open>An OCR event with no text, or with falsy text, is not recorded.\<close>

definition add_ocr_event :: "MemorySubsystem \<Rightarrow> pydict \<Rightarrow> real \<Rightarrow> MemorySubsystem" where
  "add_ocr_event m ocr_data now =
     (if truthy (dict_get ocr_data ''text'' PNone) then
        (let chunk = MemoryChunk_init ''ocr''
               [(''text'', dict_get ocr_data ''text'' PNone),
                (''confidence'', dict_get ocr_data ''confidence'' (PInt 0)),
                (''word_count'', dict_get ocr_data ''word_count'' (PInt 0))] None now
         in m\<lparr>memory_chunks := deque_append (memory_chunks m) chunk\<rparr>)
      else m)"

definition should_create_summary :: "config \<Rightarrow> MemorySubsystem \<Rightarrow> real \<Rightarrow> bool" where
  "should_create_summary cfg m now =
     (SUMMARY_INTERVAL_SECONDS cfg \<le> now - last_summary_time m)"

text \<open>
  The loop of \<^verbatim>\<open>create_summary\<close> over the stored chunks: the texts of the questions,
  the texts of the OCR events and the number of keyframes. \<^verbatim>\<open>chunk.content['text']\<close>
  raises \<^verbatim>\<open>KeyError\<close> on a chunk that has no such key.
\<close>

fun gather_recent :: "MemoryChunk list \<Rightarrow> pyval list \<Rightarrow> pyval list \<Rightarrow> nat
    \<Rightarrow> error + (pyval list \<times> pyval list \<times> nat)" where
  "gather_recent [] recent_questions recent_ocr recent_keyframes =
     Inr (recent_questions, recent_ocr, recent_keyframes)"
| "gather_recent (chunk # rest) recent_questions recent_ocr recent_keyframes =
     (if chunk_type chunk = ''question'' then
        (case map_of (content chunk) ''text'' of
           None \<Rightarrow> Inl KeyError
         | Some t \<Rightarrow> gather_recent rest (recent_questions @ [t]) recent_ocr recent_keyframes)
      else if chunk_type chunk = ''ocr'' then
        (case map_of (content chunk) ''text'' of
           None \<Rightarrow> Inl KeyError
         | Some t \<Rightarrow> gather_recent rest recent_questions (recent_ocr @ [t]) recent_keyframes)
      else if chunk_type chunk = ''keyframe'' then
        gather_recent rest recent_questions recent_ocr (recent_keyframes + 1)
      else gather_recent rest recent_questions recent_ocr recent_keyframes)"

text \<open>Python's slices \<^verbatim>\<open>xs[-k:]\<close> and \<^verbatim>\<open>xs[:k]\<close> for an integer \<open>k\<close>.\<close>

definition slice_from_neg :: "'a list \<Rightarrow> int \<Rightarrow> 'a list" where
  "slice_from_neg xs k =
     (if 0 < k then drop (length xs - nat k) xs
      else drop (nat (- k)) xs)"

definition slice_to :: "'a list \<Rightarrow> int \<Rightarrow> 'a list" where
  "slice_to xs k =
     (if 0 \<le> k then take (nat k) xs
      else take (length xs - nat (- k)) xs)"

text \<open>The decimal digits of a number, as an f-string prints it.\<close>

function str_nat :: "nat \<Rightarrow> string" where
  "str_nat n =
     (if n < 10 then [char_of (48 + n)]
      else str_nat (n div 10) @ [char_of (48 + n mod 10)])"
  by pat_completeness auto
termination
  by (relation "measure id") auto

declare str_nat.simps [simp del]

text \<open>\<^verbatim>\<open>sep.join(parts)\<close>\<close>

fun join :: "string \<Rightarrow> string list \<Rightarrow> string" where
  "join sep [] = []"
| "join sep [p] = p"
| "join sep (p # q # ps) = p @ sep @ join sep (q # ps)"

text \<open>
  \<open>set_order xs\<close> stands for \<^verbatim>\<open>list(set(xs))\<close>: the distinct members of \<open>xs\<close>, in
  the order in which the interpreter iterates over the set.
\<close>

definition generate_summary_text :: "(pyval list \<Rightarrow> pyval list) \<Rightarrow> pyval list \<Rightarrow> pyval list
    \<Rightarrow> string" where
  "generate_summary_text set_order questions ocr_texts =
     (let parts = [];
          parts = (if questions \<noteq> [] then
                     parts @ [''Received '' @ str_nat (length questions) @
                              '' questions about code and errors'']
                   else parts);
          parts = (if ocr_texts \<noteq> [] then
                     parts @ [''Detected '' @ str_nat (length (set_order ocr_texts)) @
                              '' unique text segments on screen'']
                   else parts);
          parts = (if parts = [] then
                     parts @ [''Monitoring session with no significant activity'']
                   else parts)
      in join ''. '' parts @ ''.'')"

text \<open>
  \<^verbatim>\<open>create_summary\<close>. It returns the empty dictionary, and changes nothing, when no chunk
  is stored. Otherwise the clock is read four times: for the end of the timeframe, for
  its duration, for the timestamp of the summary chunk and for the new
  \<^verbatim>\<open>last_summary_time\<close>. Building \<^verbatim>\<open>set(recent_ocr)\<close> raises \<^verbatim>\<open>TypeError\<close> on an
  unhashable member.
\<close>

definition create_summary :: "(pyval list \<Rightarrow> pyval list) \<Rightarrow> MemorySubsystem
    \<Rightarrow> real \<Rightarrow> real \<Rightarrow> real \<Rightarrow> real \<Rightarrow> error + (pydict \<times> MemorySubsystem)" where
  "create_summary set_order m t_end t_duration t_chunk t_reset =
     (if items (memory_chunks m) = [] then Inr ([], m)
      else
        (case gather_recent (items (memory_chunks m)) [] [] 0 of
           Inl e \<Rightarrow> Inl e
         | Inr (recent_questions, recent_ocr, recent_keyframes) \<Rightarrow>
             (if \<not> list_all hashable recent_ocr then Inl TypeError
              else
                (let summary =
                       [(''timeframe'', PDict
                           [(''start'', PFloat (last_summary_time m)),
                            (''end'', PFloat t_end),
                            (''duration_seconds'', PFloat (t_duration - last_summary_time m))]),
                        (''statistics'', PDict
                           [(''questions_asked'', PInt (int (length recent_questions))),
                            (''keyframes_captured'', PInt (int recent_keyframes)),
                            (''ocr_events'', PInt (int (length recent_ocr)))]),
                        (''questions'', PList (slice_from_neg recent_questions 5)),
                        (''detected_text'', PList (slice_to (set_order recent_ocr) 3)),
                        (''summary_text'',
                           PStr (generate_summary_text set_order recent_questions recent_ocr))];
                     summary_chunk = MemoryChunk_init ''summary'' summary None t_chunk
                 in Inr (summary,
                         m\<lparr>summaries := summaries m @ [summary_chunk],
                           last_summary_time := t_reset\<rparr>)))))"





text \<open>
  The persisted document. \<^verbatim>\<open>save_to_file\<close> builds it and hands it to \<^verbatim>\<open>json.dump\<close>;
  \<^verbatim>\<open>load_from_file\<close> receives it from \<^verbatim>\<open>json.load\<close> and reads each key with a
  default, so a key may be absent. A file that is missing or cannot be parsed is \<open>None\<close>.
\<close>

record document =
  doc_session_start :: "real option"
  doc_total_interactions :: "int option"
  doc_memory_chunks :: "chunk_dict list option"
  doc_summaries :: "chunk_dict list option"

definition save_to_file :: "(real \<Rightarrow> string) \<Rightarrow> MemorySubsystem \<Rightarrow> document" where
  "save_to_file strftime m =
     \<lparr> doc_session_start = Some (session_start_time m),
       doc_total_interactions = Some (total_interactions m),
       doc_memory_chunks = Some (map (to_dict strftime) (items (memory_chunks m))),
       doc_summaries = Some (map (to_dict strftime) (summaries m)) \<rparr>"

text \<open>
  The two loading loops. \<open>clock i\<close> is the reading of the clock while entry \<open>i\<close> of the
  list is rebuilt.
\<close>

fun load_chunks :: "MemoryChunk deque \<Rightarrow> chunk_dict list \<Rightarrow> (nat \<Rightarrow> real) \<Rightarrow> nat
    \<Rightarrow> MemoryChunk deque" where
  "load_chunks dq [] clock i = dq"
| "load_chunks dq (chunk_data # rest) clock i =
     load_chunks (deque_append dq (from_dict chunk_data (clock i))) rest clock (Suc i)"

fun load_summaries :: "MemoryChunk list \<Rightarrow> chunk_dict list \<Rightarrow> (nat \<Rightarrow> real) \<Rightarrow> nat
    \<Rightarrow> MemoryChunk list" where
  "load_summaries acc [] clock i = acc"
| "load_summaries acc (summary_data # rest) clock i =
     load_summaries (acc @ [from_dict summary_data (clock i)]) rest clock (Suc i)"

definition load_from_file :: "MemorySubsystem \<Rightarrow> document option \<Rightarrow> real \<Rightarrow> (nat \<Rightarrow> real)
    \<Rightarrow> (nat \<Rightarrow> real) \<Rightarrow> bool \<times> MemorySubsystem" where
  "load_from_file m file t0 clock_chunks clock_summaries =
     (case file of
        None \<Rightarrow> (False, m)
      | Some data \<Rightarrow>
          (True,
           m\<lparr>session_start_time :=
                 (case doc_session_start data of None \<Rightarrow> t0 | Some s \<Rightarrow> s),
             total_interactions :=
                 (case doc_total_interactions data of None \<Rightarrow> 0 | Some n \<Rightarrow> n),
             memory_chunks :=
                 load_chunks (deque_clear (memory_chunks m))
                   (case doc_memory_chunks data of None \<Rightarrow> [] | Some cs \<Rightarrow> cs)
                   clock_chunks 0,
             summaries :=
                 load_summaries []
                   (case doc_summaries data of None \<Rightarrow> [] | Some ss \<Rightarrow> ss)
                   clock_summaries 0\<rparr>))"

definition clear :: "MemorySubsystem \<Rightarrow> real \<Rightarrow> MemorySubsystem" where
  "clear m now =
     m\<lparr>memory_chunks := deque_clear (memory_chunks m), summaries := [],
       last_summary_time := now, total_interactions := 0\<rparr>"

text \<open>
  The calls a client makes on one \<^verbatim>\<open>MemorySubsystem\<close>, with the clock readings of each
  call, and the store a sequence of calls leaves behind. A call that raises leaves the
  store as it was.
\<close>

datatype mem_op =
    AddKeyframe pydict real
  | AddQuestion pydict real
  | AddAnswer pydict real
  | AddOcrEvent pydict real
  | CreateSummary real real real real
  | LoadFromFile "document option" real "nat \<Rightarrow> real" "nat \<Rightarrow> real"
  | Clear real

fun apply_op :: "(pyval list \<Rightarrow> pyval list) \<Rightarrow> MemorySubsystem \<Rightarrow> mem_op \<Rightarrow> MemorySubsystem" where
  "apply_op so m (AddKeyframe d now) = add_keyframe m d now"
| "apply_op so m (AddQuestion d now) =
     (case add_question m d now of Inl e \<Rightarrow> m | Inr m' \<Rightarrow> m')"
| "apply_op so m (AddAnswer d now) =
     (case add_answer m d now of Inl e \<Rightarrow> m | Inr m' \<Rightarrow> m')"
| "apply_op so m (AddOcrEvent d now) = add_ocr_event m d now"
| "apply_op so m (CreateSummary t1 t2 t3 t4) =
     (case create_summary so m t1 t2 t3 t4 of Inl e \<Rightarrow> m | Inr (s, m') \<Rightarrow> m')"
| "apply_op so m (LoadFromFile file t0 c1 c2) = snd (load_from_file m file t0 c1 c2)"
| "apply_op so m (Clear now) = clear m now"

fun run_ops :: "(pyval list \<Rightarrow> pyval list) \<Rightarrow> MemorySubsystem \<Rightarrow> mem_op list \<Rightarrow> MemorySubsystem" where
  "run_ops so m [] = m"
| "run_ops so m (op # ops) = run_ops so (apply_op so m op) ops"

text \<open>The capacity invariant of a deque.\<close>

definition within_capacity :: "'a deque \<Rightarrow> bool" where
  "within_capacity d = (length (items d) \<le> maxlen d)"

text \<open>
  A chunk that the loop of \<^verbatim>\<open>create_summary\<close> can read: a question has a text, an OCR
  event has a text that can be a member of a set. Every chunk that \<^verbatim>\<open>add_question\<close>
  stores is of this kind, and so is every chunk that \<^verbatim>\<open>add_ocr_event\<close> stores for a
  string.
\<close>

definition chunk_readable :: "MemoryChunk \<Rightarrow> bool" where
  "chunk_readable c =
     (if chunk_type c = ''question'' then map_of (content c) ''text'' \<noteq> None
      else if chunk_type c = ''ocr'' then
        (case map_of (content c) ''text'' of None \<Rightarrow> False | Some t \<Rightarrow> hashable t)
      else True)"

text \<open>
  The clock readings a call consumes when it stamps a chunk are not zero. This holds of
  every call made while the system clock shows a time after the epoch.
\<close>

fun op_clock_nonzero :: "mem_op \<Rightarrow> bool" where
  "op_clock_nonzero (AddKeyframe d now) = (now \<noteq> 0)"
| "op_clock_nonzero (AddQuestion d now) = (now \<noteq> 0)"
| "op_clock_nonzero (AddAnswer d now) = (now \<noteq> 0)"
| "op_clock_nonzero (AddOcrEvent d now) = (now \<noteq> 0)"
| "op_clock_nonzero (CreateSummary t1 t2 t3 t4) = (t3 \<noteq> 0)"
| "op_clock_nonzero (LoadFromFile file t0 c1 c2) = ((\<forall>i. c1 i \<noteq> 0) \<and> (\<forall>i. c2 i \<noteq> 0))"
| "op_clock_nonzero (Clear now) = True"

definition stamped :: "MemoryChunk \<Rightarrow> bool" where
  "stamped c = (timestamp c \<noteq> 0)"

definition all_stamped :: "MemorySubsystem \<Rightarrow> bool" where
  "all_stamped m = (list_all stamped (items (memory_chunks m)) \<and> list_all stamped (summaries m))"

section \<open>Audio subsystem\<close>

subsection \<open>Strings and regular expressions\<close>

text \<open>\<^verbatim>\<open>str.lower\<close>, \<^verbatim>\<open>str.isspace\<close>, \<^verbatim>\<open>str.strip\<close> and \<^verbatim>\<open>str.endswith\<close> on code points below 256.\<close>

definition py_lower_char :: "char \<Rightarrow> char" where
  "py_lower_char c =
     (let n = (of_char c :: nat)
      in if (65 \<le> n \<and> n \<le> 90) \<or> (192 \<le> n \<and> n \<le> 222 \<and> n \<noteq> 215)
         then char_of (n + 32) else c)"

definition py_lower :: "string \<Rightarrow> string" where
  "py_lower s = map py_lower_char s"

definition py_isspace :: "char \<Rightarrow> bool" where
  "py_isspace c = ((of_char c :: nat) \<in> {9, 10, 11, 12, 13, 28, 29, 30, 31, 32, 133, 160})"

definition py_strip :: "string \<Rightarrow> string" where
  "py_strip s = rev (dropWhile py_isspace (rev (dropWhile py_isspace s)))"

definition py_endswith :: "string \<Rightarrow> string \<Rightarrow> bool" where
  "py_endswith s suf = (length suf \<le> length s \<and> drop (length s - length suf) s = suf)"

text \<open>
  \<^verbatim>\<open>re.search\<close>. \<open>rmatch ic r s i\<close> lists the positions at which a match of \<open>r\<close> that
  starts at position \<open>i\<close> of \<open>s\<close> can end; \<open>ic\<close> is the flag \<^verbatim>\<open>re.IGNORECASE\<close>. Without
  \<^verbatim>\<open>re.MULTILINE\<close>, \<^verbatim>\<open>^\<close> matches at the start of the string and \<^verbatim>\<open>$\<close> at its end and
  before a newline that ends it.
\<close>

definition ci_eq :: "bool \<Rightarrow> char \<Rightarrow> char \<Rightarrow> bool" where
  "ci_eq ic p c = (if ic then py_lower_char p = py_lower_char c else p = c)"

fun lit_match :: "bool \<Rightarrow> string \<Rightarrow> string \<Rightarrow> bool" where
  "lit_match ic [] cs = True"
| "lit_match ic (p # ps) [] = False"
| "lit_match ic (p # ps) (c # cs) = (ci_eq ic p c \<and> lit_match ic ps cs)"

fun rmatch :: "bool \<Rightarrow> regex \<Rightarrow> string \<Rightarrow> nat \<Rightarrow> nat list" where
  "rmatch ic (Lit w) s i = (if lit_match ic w (drop i s) then [i + length w] else [])"
| "rmatch ic (Alt rs) s i = concat (map (\<lambda>r. rmatch ic r s i) rs)"
| "rmatch ic (Cat r1 r2) s i = concat (map (\<lambda>j. rmatch ic r2 s j) (rmatch ic r1 s i))"
| "rmatch ic Bol s i = (if i = 0 then [i] else [])"
| "rmatch ic Eol s i =
     (if i = length s \<or> (Suc i = length s \<and> s ! i = CHR 0x0A) then [i] else [])"

definition re_search :: "bool \<Rightarrow> regex \<Rightarrow> string \<Rightarrow> bool" where
  "re_search ic r s = list_ex (\<lambda>i. rmatch ic r s i \<noteq> []) [0..<Suc (length s)]"

subsection \<open>Question classification\<close>

text \<open>The loop of \<^verbatim>\<open>_is_question\<close> over the configured patterns.\<close>

fun search_patterns :: "regex list \<Rightarrow> string \<Rightarrow> bool" where
  "search_patterns [] t = False"
| "search_patterns (pattern # rest) t =
     (if re_search True pattern t then True else search_patterns rest t)"

definition is_question :: "config \<Rightarrow> string \<Rightarrow> bool" where
  "is_question cfg txt =
     (let text_lower = py_strip (py_lower txt)
      in if py_endswith text_lower ''?'' then True
         else search_patterns (QUESTION_PATTERNS cfg) text_lower)"

text \<open>
  The classification as the specification words it: the text ends with a question mark,
  or one of the configured patterns matches it without regard to case. For the
  configured patterns that is: the text begins with one of the interrogative openers, or
  contains one of the phrases.
\<close>

definition spec_is_question :: "config \<Rightarrow> string \<Rightarrow> bool" where
  "spec_is_question cfg s =
     (py_endswith s ''?'' \<or> list_ex (\<lambda>p. re_search True p s) (QUESTION_PATTERNS cfg))"

definition begins_with_ci :: "string \<Rightarrow> string \<Rightarrow> bool" where
  "begins_with_ci w s = (length w \<le> length s \<and> py_lower (take (length w) s) = py_lower w)"

definition contains_ci :: "string \<Rightarrow> string \<Rightarrow> bool" where
  "contains_ci w s = list_ex (\<lambda>i. begins_with_ci w (drop i s)) [0..<Suc (length s)]"

definition interrogative_openers :: "string list" where
  "interrogative_openers =
     [''what'', ''who'', ''where'', ''when'', ''why'', ''how'', ''can'', ''could'', ''would'',
      ''is'', ''are'', ''do'', ''does'']"

definition question_phrases :: "string list" where
  "question_phrases = [''tell me'', ''explain'', ''show me'', ''help'']"

definition spec_opener_or_phrase :: "string \<Rightarrow> bool" where
  "spec_opener_or_phrase s =
     (py_endswith s ''?''
      \<or> list_ex (\<lambda>w. begins_with_ci w s) interrogative_openers
      \<or> list_ex (\<lambda>w. contains_ci w s) question_phrases)"

subsection \<open>\<^verbatim>\<open>AudioSubsystem\<close>\<close>

type_synonym byte = "8 word"

record AudioSubsystem =
  vad :: bool
  user_voiceprint :: "real list option"
  is_recording :: bool
  speech_count :: nat
  non_user_speech_count :: nat

text \<open>
  What the subsystem obtains from outside during one pass of the pipeline: whether
  \<^verbatim>\<open>pyaudio\<close> and \<^verbatim>\<open>webrtcvad\<close> were imported; the outcome of the stream read (\<open>None\<close> when
  it raises); the random chunk of mock mode; the detector's answer for a frame (\<open>None\<close>
  when it raises); and the draws of the random generator: the number compared with 0.2,
  the vector drawn for the embedding, the index of the chosen transcription and its
  confidence; and the clock reading of the transcription. The field \<open>vad\<close> of the
  subsystem says that \<^verbatim>\<open>self.vad\<close> is not \<^verbatim>\<open>None\<close>.

  The floating-point operations of \<^verbatim>\<open>numpy\<close> on vectors come from outside, too:
  \<^verbatim>\<open>np.linalg.norm\<close>, the division of a vector by a number and \<^verbatim>\<open>np.dot\<close>. Their results
  are double-precision numbers: a finite number, one of the two infinities, or not a
  number; \<^verbatim>\<open>np.dot\<close> raises when the shapes do not fit. Nothing is assumed about how these
  operations round.
\<close>

datatype float64 = F64 real | PosInf | NegInf | NaN

text \<open>
  The comparison \<^verbatim>\<open>x > t\<close> of a double with a finite number: false when \<open>x\<close> is not
  a number.
\<close>

fun float_gt :: "float64 \<Rightarrow> real \<Rightarrow> bool" where
  "float_gt (F64 x) t = (t < x)"
| "float_gt PosInf t = True"
| "float_gt NegInf t = False"
| "float_gt NaN t = False"

record audio_world =
  AUDIO_AVAILABLE :: bool
  stream_read :: "byte list option"
  mock_chunk :: "byte list"
  vad_is_speech :: "byte list \<Rightarrow> bool option"
  random_draw :: real
  randn :: "real list"
  np_linalg_norm :: "real list \<Rightarrow> float64"
  np_divide :: "real list \<Rightarrow> float64 \<Rightarrow> float64 list"
  np_dot :: "float64 list \<Rightarrow> real list \<Rightarrow> error + float64"
  random_choice :: nat
  random_confidence :: real
  transcribe_time :: real

definition capture_audio_chunk :: "AudioSubsystem \<Rightarrow> audio_world \<Rightarrow> byte list option" where
  "capture_audio_chunk a w =
     (if \<not> is_recording a then None
      else if \<not> AUDIO_AVAILABLE w then Some (mock_chunk w)
      else stream_read w)"

text \<open>
  \<^verbatim>\<open>np.frombuffer(audio_chunk, dtype=np.int16)\<close>: pairs of bytes, low byte first, read as
  two's complement; \<^verbatim>\<open>ValueError\<close> when the number of bytes is odd.
\<close>

fun decode_int16 :: "byte list \<Rightarrow> int list" where
  "decode_int16 (lo # hi # rest) = sint (word_cat hi lo :: 16 word) # decode_int16 rest"
| "decode_int16 rest = []"

definition frombuffer_int16 :: "byte list \<Rightarrow> error + int list" where
  "frombuffer_int16 chunk = (if odd (length chunk) then Inl ValueError else Inr (decode_int16 chunk))"

text \<open>
  The energy of the fallback: the root of the mean of the squares. The mean of no sample
  is not a number, which is not greater than the threshold.
\<close>

definition energy :: "int list \<Rightarrow> real" where
  "energy xs = sqrt (sum_list (map (\<lambda>x. (real_of_int x)\<^sup>2) xs) / real (length xs))"

definition energy_vad :: "byte list \<Rightarrow> error + bool" where
  "energy_vad chunk =
     (case frombuffer_int16 chunk of
        Inl e \<Rightarrow> Inl e
      | Inr audio_array \<Rightarrow> Inr (audio_array \<noteq> [] \<and> 500 < energy audio_array))"

definition detect_voice_activity :: "config \<Rightarrow> AudioSubsystem \<Rightarrow> audio_world \<Rightarrow> byte list
    \<Rightarrow> error + (bool \<times> AudioSubsystem)" where
  "detect_voice_activity cfg a w audio_chunk =
     (if \<not> AUDIO_AVAILABLE w \<or> \<not> vad a then Inr (random_draw w < 0.2, a)
      else
        (let frame_duration = 30;
             sample_count = (AUDIO_SAMPLE_RATE cfg * frame_duration) div 1000
         in if length audio_chunk < sample_count * 2 then Inr (False, a)
            else
              (case vad_is_speech w (take (sample_count * 2) audio_chunk) of
                 Some is_speech \<Rightarrow>
                   Inr (is_speech,
                        if is_speech then a\<lparr>speech_count := speech_count a + 1\<rparr> else a)
               | None \<Rightarrow>
                   (case energy_vad audio_chunk of
                      Inl e \<Rightarrow> Inl e
                    | Inr is_speech \<Rightarrow> Inr (is_speech, a)))))"

text \<open>
  The mocked embedding: a random vector divided by its norm. The similarity is the dot
  product of the embedding and the stored voiceprint.
\<close>

definition extract_speaker_embedding :: "audio_world \<Rightarrow> byte list \<Rightarrow> float64 list" where
  "extract_speaker_embedding w audio_chunk =
     (let embedding = randn w
      in np_divide w embedding (np_linalg_norm w embedding))"

definition is_user_speaking :: "config \<Rightarrow> AudioSubsystem \<Rightarrow> audio_world \<Rightarrow> byte list
    \<Rightarrow> error + (bool \<times> AudioSubsystem)" where
  "is_user_speaking cfg a w audio_chunk =
     (case user_voiceprint a of
        None \<Rightarrow> Inr (False, a)
      | Some voiceprint \<Rightarrow>
          (case np_dot w (extract_speaker_embedding w audio_chunk) voiceprint of
             Inl e \<Rightarrow> Inl e
           | Inr similarity \<Rightarrow>
               (let is_user = float_gt similarity (SPEAKER_ID_THRESHOLD cfg)
                in Inr (is_user,
                        if \<not> is_user
                        then a\<lparr>non_user_speech_count := non_user_speech_count a + 1\<rparr>
                        else a))))"

text \<open>
  The three operations computed without rounding. They are the library of the worked
  examples, whose vectors have the components 0, 1 and 2 only, on which the operations in
  double precision are exact, too.
\<close>

definition exact_norm :: "real list \<Rightarrow> float64" where
  "exact_norm v = F64 (sqrt (sum_list (map (\<lambda>x. x\<^sup>2) v)))"

fun float_div :: "real \<Rightarrow> float64 \<Rightarrow> float64" where
  "float_div x (F64 k) =
     (if k \<noteq> 0 then F64 (x / k)
      else if x = 0 then NaN else if 0 < x then PosInf else NegInf)"
| "float_div x PosInf = F64 0"
| "float_div x NegInf = F64 0"
| "float_div x NaN = NaN"

definition exact_divide :: "real list \<Rightarrow> float64 \<Rightarrow> float64 list" where
  "exact_divide v n = map (\<lambda>x. float_div x n) v"

fun float_mul :: "float64 \<Rightarrow> real \<Rightarrow> float64" where
  "float_mul (F64 x) y = F64 (x * y)"
| "float_mul PosInf y = (if y = 0 then NaN else if 0 < y then PosInf else NegInf)"
| "float_mul NegInf y = (if y = 0 then NaN else if 0 < y then NegInf else PosInf)"
| "float_mul NaN y = NaN"

fun float_add :: "float64 \<Rightarrow> float64 \<Rightarrow> float64" where
  "float_add (F64 x) (F64 y) = F64 (x + y)"
| "float_add NaN y = NaN"
| "float_add x NaN = NaN"
| "float_add PosInf NegInf = NaN"
| "float_add NegInf PosInf = NaN"
| "float_add PosInf y = PosInf"
| "float_add x PosInf = PosInf"
| "float_add NegInf y = NegInf"
| "float_add x NegInf = NegInf"

fun exact_sum_products :: "float64 list \<Rightarrow> real list \<Rightarrow> float64" where
  "exact_sum_products (x # u) (y # v) = float_add (float_mul x y) (exact_sum_products u v)"
| "exact_sum_products u v = F64 0"

definition exact_dot :: "float64 list \<Rightarrow> real list \<Rightarrow> error + float64" where
  "exact_dot u v =
     (if length u \<noteq> length v then Inl ValueError else Inr (exact_sum_products u v))"

definition mock_transcriptions :: "string list" where
  "mock_transcriptions =
     [''What does this function do?'',
      ''Can you explain this error message?'',
      ''How do I fix this bug?'',
      ''Why is this not working?'',
      ''Show me how to use this API'',
      ''What's the purpose of this code?'',
      ''This looks good'',
      ''I see what you mean'',
      ''That makes sense now'']"

record transcription =
  tr_text :: string
  tr_is_question :: bool
  tr_confidence :: real
  tr_timestamp :: real

text \<open>The random choice is an index into the list of mock transcriptions.\<close>

definition transcribe_speech :: "config \<Rightarrow> audio_world \<Rightarrow> byte list \<Rightarrow> transcription" where
  "transcribe_speech cfg w audio_chunk =
     (let txt = mock_transcriptions ! (random_choice w mod length mock_transcriptions)
      in \<lparr> tr_text = txt, tr_is_question = is_question cfg txt,
           tr_confidence = random_confidence w, tr_timestamp = transcribe_time w \<rparr>)"

definition process_audio_stream :: "config \<Rightarrow> AudioSubsystem \<Rightarrow> audio_world
    \<Rightarrow> error + (transcription option \<times> AudioSubsystem)" where
  "process_audio_stream cfg a w =
     (case capture_audio_chunk a w of
        None \<Rightarrow> Inr (None, a)
      | Some audio_chunk \<Rightarrow>
          (case detect_voice_activity cfg a w audio_chunk of
             Inl e \<Rightarrow> Inl e
           | Inr (has_speech, a1) \<Rightarrow>
               if \<not> has_speech then Inr (None, a1)
               else
                 (case is_user_speaking cfg a1 w audio_chunk of
                    Inl e \<Rightarrow> Inl e
                  | Inr (is_user, a2) \<Rightarrow>
                      if is_user then Inr (None, a2)
                      else
                        (let t = transcribe_speech cfg w audio_chunk
                         in if tr_is_question t then Inr (Some t, a2)
                            else Inr (None, a2)))))"

section \<open>Camera subsystem\<close>

text \<open>
  Frames are values of a type \<open>'f\<close>. The structural similarity of the current frame and
  the previous one, both converted to gray and the previous one resized to the current
  one, is a function \<open>ssim\<close> of the two frames. \<open>cap_opened\<close> says that the capture
  device exists and is open.
\<close>

record 'f CameraSubsystem =
  cap_opened :: bool
  previous_frame :: "'f option"
  frame_count :: nat
  keyframe_count :: nat
  last_keyframe_time :: real

definition CameraSubsystem_init :: "'f CameraSubsystem" where
  "CameraSubsystem_init =
     \<lparr> cap_opened = False, previous_frame = None, frame_count = 0, keyframe_count = 0,
       last_keyframe_time = 0 \<rparr>"

text \<open>\<open>rd\<close> is what the device delivers: a frame, or \<open>None\<close> when the read fails.\<close>

definition capture_frame :: "'f CameraSubsystem \<Rightarrow> 'f option \<Rightarrow> 'f option \<times> 'f CameraSubsystem" where
  "capture_frame cam rd =
     (if \<not> cap_opened cam then (None, cam)
      else
        (case rd of
           None \<Rightarrow> (None, cam)
         | Some frame \<Rightarrow> (Some frame, cam\<lparr>frame_count := frame_count cam + 1\<rparr>)))"

definition is_keyframe :: "config \<Rightarrow> ('f \<Rightarrow> 'f \<Rightarrow> real) \<Rightarrow> 'f CameraSubsystem \<Rightarrow> 'f \<Rightarrow> real
    \<Rightarrow> (bool \<times> real) \<times> 'f CameraSubsystem" where
  "is_keyframe cfg ssim cam current_frame now =
     (case previous_frame cam of
        None \<Rightarrow>
          ((True, 0),
           cam\<lparr>previous_frame := Some current_frame,
               keyframe_count := keyframe_count cam + 1,
               last_keyframe_time := now\<rparr>)
      | Some previous \<Rightarrow>
          (let similarity = ssim current_frame previous;
               is_kf = (similarity < KEYFRAME_THRESHOLD cfg)
           in ((is_kf, similarity),
               if is_kf then
                 cam\<lparr>previous_frame := Some current_frame,
                     keyframe_count := keyframe_count cam + 1,
                     last_keyframe_time := now\<rparr>
               else cam)))"

definition get_frame_with_keyframe_detection :: "config \<Rightarrow> ('f \<Rightarrow> 'f \<Rightarrow> real)
    \<Rightarrow> 'f CameraSubsystem \<Rightarrow> 'f option \<Rightarrow> real \<Rightarrow> ('f \<times> bool) option \<times> 'f CameraSubsystem" where
  "get_frame_with_keyframe_detection cfg ssim cam rd now =
     (case capture_frame cam rd of
        (None, cam1) \<Rightarrow> (None, cam1)
      | (Some frame, cam1) \<Rightarrow>
          (case is_keyframe cfg ssim cam1 frame now of
             ((is_kf, similarity), cam2) \<Rightarrow> (Some (frame, is_kf), cam2)))"

text \<open>
  The gate run over a sequence of frames, with the clock reading of each evaluation, and
  the decisions as the specification words them: the first frame evaluated is a keyframe
  and becomes the reference; a later frame is a keyframe exactly when its similarity to
  the reference is below the threshold, and then replaces the reference.
\<close>

fun gate_run :: "config \<Rightarrow> ('f \<Rightarrow> 'f \<Rightarrow> real) \<Rightarrow> 'f CameraSubsystem \<Rightarrow> ('f \<times> real) list
    \<Rightarrow> bool list \<times> 'f CameraSubsystem" where
  "gate_run cfg ssim cam [] = ([], cam)"
| "gate_run cfg ssim cam ((frame, now) # rest) =
     (case is_keyframe cfg ssim cam frame now of
        ((is_kf, similarity), cam1) \<Rightarrow>
          (case gate_run cfg ssim cam1 rest of
             (decisions, cam2) \<Rightarrow> (is_kf # decisions, cam2)))"

fun spec_gate :: "real \<Rightarrow> ('f \<Rightarrow> 'f \<Rightarrow> real) \<Rightarrow> 'f option \<Rightarrow> 'f list \<Rightarrow> bool list \<times> 'f option" where
  "spec_gate threshold ssim reference [] = ([], reference)"
| "spec_gate threshold ssim None (frame # rest) =
     (case spec_gate threshold ssim (Some frame) rest of
        (decisions, r) \<Rightarrow> (True # decisions, r))"
| "spec_gate threshold ssim (Some reference) (frame # rest) =
     (if ssim frame reference < threshold then
        (case spec_gate threshold ssim (Some frame) rest of
           (decisions, r) \<Rightarrow> (True # decisions, r))
      else
        (case spec_gate threshold ssim (Some reference) rest of
           (decisions, r) \<Rightarrow> (False # decisions, r)))"

section \<open>OCR subsystem\<close>

text \<open>\<^verbatim>\<open>str.split()\<close>: the maximal runs of characters that are not white space.\<close>

fun split_ws :: "string \<Rightarrow> string \<Rightarrow> string list" where
  "split_ws cur [] = (if cur = [] then [] else [cur])"
| "split_ws cur (c # cs) =
     (if py_isspace c then (if cur = [] then split_ws [] cs else cur # split_ws [] cs)
      else split_ws (cur @ [c]) cs)"

definition py_split :: "string \<Rightarrow> string list" where
  "py_split s = split_ws [] s"

record OCRSubsystem =
  previous_text :: string
  text_changes :: nat

definition OCRSubsystem_init :: OCRSubsystem where
  "OCRSubsystem_init = \<lparr> previous_text = [], text_changes = 0 \<rparr>"

text \<open>
  What recognition obtains from outside: whether \<^verbatim>\<open>pytesseract\<close> was imported, the words
  it reports for the preprocessed frame, each with its confidence (\<open>None\<close> when it raises),
  and the mean brightness of the frame, which the mock recognition uses.
\<close>

record 'f ocr_world =
  TESSERACT_AVAILABLE :: bool
  image_to_data :: "'f \<Rightarrow> (real \<times> string) list option"
  brightness :: "'f \<Rightarrow> real"

definition mock_ocr :: "'f ocr_world \<Rightarrow> 'f \<Rightarrow> string" where
  "mock_ocr ow frame =
     (if 150 < brightness ow frame then ''def calculate_sum(a, b): return a + b''
      else if 100 < brightness ow frame then ''Error: NullPointerException at line 42''
      else ''Console output: Processing complete'')"

text \<open>
  \<^verbatim>\<open>_text_changed\<close>. With no previous text, the new text becomes the previous one and
  counts as changed when it is not blank. Otherwise the similarity is the share of the
  distinct words of the new text that occur in the previous text.
\<close>

definition text_changed :: "OCRSubsystem \<Rightarrow> string \<Rightarrow> bool \<times> OCRSubsystem" where
  "text_changed ocr new_text =
     (if previous_text ocr = [] then
        (py_strip new_text \<noteq> [], ocr\<lparr>previous_text := new_text\<rparr>)
      else
        (let similarity =
               real (card (set (py_split new_text) \<inter> set (py_split (previous_text ocr))))
               / real (max (card (set (py_split new_text))) 1);
             changed = (similarity < 0.7)
         in (changed,
             if changed then
               ocr\<lparr>previous_text := new_text, text_changes := text_changes ocr + 1\<rparr>
             else ocr)))"

text \<open>The loop of \<^verbatim>\<open>extract_text\<close> over the reported words.\<close>

fun filter_words :: "config \<Rightarrow> (real \<times> string) list \<Rightarrow> string list \<times> real list" where
  "filter_words cfg [] = ([], [])"
| "filter_words cfg ((conf, word) # rest) =
     (case filter_words cfg rest of
        (text_parts, confidences) \<Rightarrow>
          if OCR_CONFIDENCE_THRESHOLD cfg * 100 < conf \<and> py_strip word \<noteq> []
          then (py_strip word # text_parts, conf # confidences)
          else (text_parts, confidences))"

record ocr_result =
  ocr_text :: string
  ocr_confidence :: real
  ocr_changed :: bool
  ocr_word_count :: nat

definition recognize :: "config \<Rightarrow> 'f ocr_world \<Rightarrow> 'f \<Rightarrow> string \<times> real" where
  "recognize cfg ow frame =
     (if TESSERACT_AVAILABLE ow then
        (case image_to_data ow frame of
           None \<Rightarrow> ([], 0)
         | Some data \<Rightarrow>
             (case filter_words cfg data of
                (text_parts, confidences) \<Rightarrow>
                  (join '' '' text_parts,
                   if confidences = [] then 0
                   else sum_list confidences / real (length confidences) / 100)))
      else (mock_ocr ow frame, 0.95))"

definition extract_text :: "config \<Rightarrow> 'f ocr_world \<Rightarrow> OCRSubsystem \<Rightarrow> 'f
    \<Rightarrow> ocr_result \<times> OCRSubsystem" where
  "extract_text cfg ow ocr frame =
     (case recognize cfg ow frame of
        (extracted_text, avg_confidence) \<Rightarrow>
          (case text_changed ocr extracted_text of
             (changed, ocr1) \<Rightarrow>
               (\<lparr> ocr_text = extracted_text, ocr_confidence = avg_confidence,
                   ocr_changed = changed,
                   ocr_word_count = length (py_split extracted_text) \<rparr>, ocr1)))"

text \<open>The dictionary \<^verbatim>\<open>extract_text\<close> returns.\<close>

definition ocr_result_dict :: "ocr_result \<Rightarrow> pydict" where
  "ocr_result_dict r =
     [(''text'', PStr (ocr_text r)), (''confidence'', PFloat (ocr_confidence r)),
      (''changed'', PBool (ocr_changed r)), (''word_count'', PInt (int (ocr_word_count r)))]"

section \<open>Orchestrator\<close>

text \<open>The part of \<^verbatim>\<open>MultimodalAssistant\<close> that the visual loop reads and writes.\<close>

record 'f MultimodalAssistant =
  camera :: "'f CameraSubsystem"
  ocr :: OCRSubsystem
  memory :: MemorySubsystem
  current_keyframe :: "'f option"
  current_ocr_text :: string

text \<open>
  \<^verbatim>\<open>process_camera_frame\<close>. The three clock readings are those of the keyframe decision
  and of the two chunks that may be stored.
\<close>

definition process_camera_frame :: "config \<Rightarrow> ('f \<Rightarrow> 'f \<Rightarrow> real) \<Rightarrow> 'f ocr_world
    \<Rightarrow> 'f MultimodalAssistant \<Rightarrow> 'f option \<Rightarrow> real \<Rightarrow> real \<Rightarrow> real
    \<Rightarrow> ('f option \<times> bool) \<times> 'f MultimodalAssistant" where
  "process_camera_frame cfg ssim ow a rd t_gate t_ocr t_keyframe =
     (case get_frame_with_keyframe_detection cfg ssim (camera a) rd t_gate of
        (None, cam) \<Rightarrow> ((None, False), a\<lparr>camera := cam\<rparr>)
      | (Some (frame, is_kf), cam) \<Rightarrow>
          if is_kf then
            (case extract_text cfg ow (ocr a) frame of
               (r, ocr1) \<Rightarrow>
                 (let a1 = a\<lparr>camera := cam, ocr := ocr1\<rparr>;
                      a2 = (if ocr_changed r then
                              a1\<lparr>current_ocr_text := ocr_text r,
                                 memory :=
                                   add_keyframe
                                     (add_ocr_event (memory a1) (ocr_result_dict r) t_ocr)
                                     [(''ocr_text'', PStr (ocr_text r)),
                                      (''confidence'', PFloat (ocr_confidence r))]
                                     t_keyframe\<rparr>
                            else a1)
                  in ((Some frame, True), a2\<lparr>current_keyframe := Some frame\<rparr>)))
          else ((Some frame, False), a\<lparr>camera := cam\<rparr>))"

section \<open>The events of a call, as specified\<close>

text \<open>
  The events a call on the store is to append, in order, written out from the
  specification of the bounded store: one keyframe event for \<^verbatim>\<open>add_keyframe\<close>; one question event for
  \<^verbatim>\<open>add_question\<close> and one answer event for \<^verbatim>\<open>add_answer\<close>, when the data has a text;
  one OCR event for \<^verbatim>\<open>add_ocr_event\<close>, when the text is truthy. \<open>is_add\<close> holds of
  these four calls.
\<close>

fun spec_appended :: "mem_op \<Rightarrow> MemoryChunk list" where
  "spec_appended (AddKeyframe d now) =
     [\<lparr>chunk_type = ''keyframe'',
       content = [(''description'', PStr ''Visual keyframe captured''),
                  (''ocr_text'', dict_get d ''ocr_text'' (PStr [])),
                  (''confidence'', dict_get d ''confidence'' (PInt 0))],
       timestamp = now\<rparr>]"
| "spec_appended (AddQuestion d now) =
     (case map_of d ''text'' of
        None \<Rightarrow> []
      | Some t \<Rightarrow>
          [\<lparr>chunk_type = ''question'',
            content = [(''text'', t), (''confidence'', dict_get d ''confidence'' (PFloat 1))],
            timestamp = now\<rparr>])"
| "spec_appended (AddAnswer d now) =
     (case map_of d ''text'' of
        None \<Rightarrow> []
      | Some t \<Rightarrow>
          [\<lparr>chunk_type = ''answer'',
            content = [(''text'', t), (''question'', dict_get d ''question'' (PStr []))],
            timestamp = now\<rparr>])"
| "spec_appended (AddOcrEvent d now) =
     (if truthy (dict_get d ''text'' PNone) then
        [\<lparr>chunk_type = ''ocr'',
          content = [(''text'', dict_get d ''text'' PNone),
                     (''confidence'', dict_get d ''confidence'' (PInt 0)),
                     (''word_count'', dict_get d ''word_count'' (PInt 0))],
          timestamp = now\<rparr>]
      else [])"
| "spec_appended (CreateSummary t1 t2 t3 t4) = []"
| "spec_appended (LoadFromFile file t0 c1 c2) = []"
| "spec_appended (Clear now) = []"

fun is_add :: "mem_op \<Rightarrow> bool" where
  "is_add (AddKeyframe d now) = True"
| "is_add (AddQuestion d now) = True"
| "is_add (AddAnswer d now) = True"
| "is_add (AddOcrEvent d now) = True"
| "is_add (CreateSummary t1 t2 t3 t4) = False"
| "is_add (LoadFromFile file t0 c1 c2) = False"
| "is_add (Clear now) = False"

section \<open>Properties\<close>

subsection \<open>The bounded event store\<close>

lemma deque_append_maxlen: "maxlen (deque_append d x) = maxlen d"
  by (simp add: deque_append_def Let_def)

lemma deque_append_items:
  "items (deque_append d x) =
     (if maxlen d < Suc (length (items d)) then tl (items d @ [x]) else items d @ [x])"
  by (simp add: deque_append_def Let_def)

lemma deque_append_bounded:
  "length (items d) \<le> maxlen d \<Longrightarrow> length (items (deque_append d x)) \<le> maxlen d"
  by (simp add: deque_append_items)

lemma deque_append_drop:
  "length (items d) \<le> maxlen d \<Longrightarrow>
   items (deque_append d x) = drop (Suc (length (items d)) - maxlen d) (items d @ [x])"
  by (cases "items d") (auto simp: deque_append_items drop_Suc Suc_diff_le)

lemma deque_extend_maxlen: "maxlen (deque_extend d xs) = maxlen d"
  by (induction xs arbitrary: d) (simp_all add: deque_append_maxlen)

lemma deque_extend_drop:
  "length (items d) \<le> maxlen d \<Longrightarrow>
   items (deque_extend d xs) = drop (length (items d) + length xs - maxlen d) (items d @ xs)"
proof (induction xs arbitrary: d)
  case Nil
  then show ?case by simp
next
  case (Cons x xs)
  let ?d = "deque_append d x"
  have b: "length (items ?d) \<le> maxlen ?d"
    using Cons.prems by (simp add: deque_append_bounded deque_append_maxlen)
  have step: "items (deque_extend ?d xs) =
        drop (length (items ?d) + length xs - maxlen d) (items ?d @ xs)"
    using Cons.IH [OF b] by (simp add: deque_append_maxlen)
  show ?case
  proof (cases "length (items d) < maxlen d")
    case True
    then have "items ?d = items d @ [x]"
      by (simp add: deque_append_items)
    with step show ?thesis by simp
  next
    case False
    with Cons.prems have full: "length (items d) = maxlen d" by simp
    then have it: "items ?d = tl (items d @ [x])"
      by (simp add: deque_append_items)
    have len: "length (items ?d) = maxlen d"
      using full by (simp add: it)
    have e: "tl (items d @ [x]) @ xs = drop 1 (items d @ x # xs)"
      by (cases "items d") (simp_all add: drop_Suc)
    have "items (deque_extend ?d xs) = drop (maxlen d + length xs - maxlen d) (items ?d @ xs)"
      using step by (simp only: len)
    also have "maxlen d + length xs - maxlen d = length xs"
      by simp
    also have "items ?d @ xs = drop 1 (items d @ x # xs)"
      by (simp only: it e)
    finally have "items (deque_extend ?d xs) = drop (length xs) (drop 1 (items d @ x # xs))" .
    also have "\<dots> = drop (length xs + 1) (items d @ x # xs)"
      by (rule drop_drop)
    also have "length xs + 1 = length (items d) + length (x # xs) - maxlen d"
      using full by simp
    finally show ?thesis by simp
  qed
qed


lemma within_capacity_append: "within_capacity d \<Longrightarrow> within_capacity (deque_append d x)"
  by (simp add: within_capacity_def deque_append_bounded deque_append_maxlen)

lemma within_capacity_clear: "within_capacity (deque_clear d)"
  by (simp add: within_capacity_def deque_clear_def)

lemma load_chunks_maxlen: "maxlen (load_chunks dq ds clock i) = maxlen dq"
  by (induction dq ds clock i rule: load_chunks.induct) (simp_all add: deque_append_maxlen)

lemma load_chunks_within: "within_capacity dq \<Longrightarrow> within_capacity (load_chunks dq ds clock i)"
  by (induction dq ds clock i rule: load_chunks.induct) (simp_all add: within_capacity_append)

lemma apply_op_maxlen: "maxlen (memory_chunks (apply_op so m op)) = maxlen (memory_chunks m)"
  by (cases op)
    (auto simp: add_keyframe_def add_question_def add_answer_def add_ocr_event_def
      create_summary_def load_from_file_def clear_def deque_append_maxlen deque_clear_def
      load_chunks_maxlen Let_def
      split: option.splits sum.splits if_splits prod.splits)

lemma apply_op_within:
  "within_capacity (memory_chunks m) \<Longrightarrow> within_capacity (memory_chunks (apply_op so m op))"
  by (cases op)
    (auto simp: add_keyframe_def add_question_def add_answer_def add_ocr_event_def
      create_summary_def load_from_file_def clear_def within_capacity_append
      within_capacity_clear load_chunks_within Let_def
      split: option.splits sum.splits if_splits prod.splits)

lemma run_ops_maxlen: "maxlen (memory_chunks (run_ops so m ops)) = maxlen (memory_chunks m)"
  by (induction ops arbitrary: m) (simp_all add: apply_op_maxlen)

lemma run_ops_within:
  "within_capacity (memory_chunks m) \<Longrightarrow> within_capacity (memory_chunks (run_ops so m ops))"
  by (induction ops arbitrary: m) (simp_all add: apply_op_within)

lemma deque_extend_append:
  "deque_extend d (xs @ ys) = deque_extend (deque_extend d xs) ys"
  by (induction xs arbitrary: d) simp_all

lemma add_keyframe_appends:
  "add_keyframe m d now =
     m\<lparr>memory_chunks := deque_append (memory_chunks m)
         \<lparr>chunk_type = ''keyframe'',
           content = [(''description'', PStr ''Visual keyframe captured''),
                      (''ocr_text'', dict_get d ''ocr_text'' (PStr [])),
                      (''confidence'', dict_get d ''confidence'' (PInt 0))],
           timestamp = now\<rparr>\<rparr>"
  by (simp add: add_keyframe_def MemoryChunk_init_def Let_def)

lemma add_question_appends:
  "map_of d ''text'' = Some t \<Longrightarrow>
   add_question m d now =
     Inr (m\<lparr>memory_chunks := deque_append (memory_chunks m)
              \<lparr>chunk_type = ''question'',
                content = [(''text'', t), (''confidence'', dict_get d ''confidence'' (PFloat 1))],
                timestamp = now\<rparr>,
            total_interactions := total_interactions m + 1\<rparr>)"
  by (simp add: add_question_def MemoryChunk_init_def Let_def)

lemma add_answer_appends:
  "map_of d ''text'' = Some t \<Longrightarrow>
   add_answer m d now =
     Inr (m\<lparr>memory_chunks := deque_append (memory_chunks m)
              \<lparr>chunk_type = ''answer'',
                content = [(''text'', t), (''question'', dict_get d ''question'' (PStr []))],
                timestamp = now\<rparr>\<rparr>)"
  by (simp add: add_answer_def MemoryChunk_init_def Let_def)

lemma add_ocr_event_appends:
  "add_ocr_event m d now =
     (if truthy (dict_get d ''text'' PNone) then
        m\<lparr>memory_chunks := deque_append (memory_chunks m)
            \<lparr>chunk_type = ''ocr'',
              content = [(''text'', dict_get d ''text'' PNone),
                         (''confidence'', dict_get d ''confidence'' (PInt 0)),
                         (''word_count'', dict_get d ''word_count'' (PInt 0))],
              timestamp = now\<rparr>\<rparr>
      else m)"
  by (simp add: add_ocr_event_def MemoryChunk_init_def Let_def)

lemma apply_op_add:
  "is_add op \<Longrightarrow>
   memory_chunks (apply_op so m op) = deque_extend (memory_chunks m) (spec_appended op)"
proof (cases op)
  case (AddKeyframe d now)
  then show ?thesis by (simp add: add_keyframe_appends)
next
  case (AddQuestion d now)
  then show ?thesis
    by (cases "map_of d ''text''") (simp_all add: add_question_def MemoryChunk_init_def Let_def)
next
  case (AddAnswer d now)
  then show ?thesis
    by (cases "map_of d ''text''") (simp_all add: add_answer_def MemoryChunk_init_def Let_def)
next
  case (AddOcrEvent d now)
  then show ?thesis by (simp add: add_ocr_event_appends)
qed simp_all

lemma run_ops_add:
  "list_all is_add ops \<Longrightarrow>
   memory_chunks (run_ops so m ops)
     = deque_extend (memory_chunks m) (concat (map spec_appended ops))"
proof (induction ops arbitrary: m)
  case Nil
  show ?case by simp
next
  case (Cons op ops)
  then show ?case
    by (simp add: apply_op_add deque_extend_append)
qed

lemma run_ops_last:
  assumes "list_all is_add ops" and "within_capacity (memory_chunks m)"
  shows "items (memory_chunks (run_ops so m ops))
     = drop (length (items (memory_chunks m) @ concat (map spec_appended ops))
              - maxlen (memory_chunks m))
         (items (memory_chunks m) @ concat (map spec_appended ops))"
  using assms
  by (simp only: run_ops_add within_capacity_def deque_extend_drop length_append)

text \<open>
  C1. The event store never holds more than its capacity, whatever sequence of calls is
  made on a freshly constructed subsystem. An append to a deque that is full drops
  exactly its oldest element and keeps the others in order; an append to one that is not
  full drops nothing. After any sequence of appends the deque holds the last elements
  appended, in the order of their insertion: after more appends than the capacity
  \<open>C\<close>, exactly the last \<open>C\<close> of them. The same holds of the store's own calls:
  \<^verbatim>\<open>add_keyframe\<close>, \<^verbatim>\<open>add_question\<close>, \<^verbatim>\<open>add_answer\<close> and \<^verbatim>\<open>add_ocr_event\<close> each append
  their one event to the deque of the store, a call on a full store drops exactly the
  oldest event, and after any sequence of these calls the store holds the last events
  appended, in order; on a fresh store, after more than \<open>C\<close> events, exactly the last
  \<open>C\<close> of them.
\<close>

theorem C1_store_bounded_fifo:
  "length (items (memory_chunks (run_ops so (MemorySubsystem_init cfg t1 t2) ops)))
     \<le> MAX_MEMORY_CHUNKS cfg
   \<and> (length (items d) \<le> maxlen d \<longrightarrow> length (items (deque_append d x)) \<le> maxlen d)
   \<and> (0 < maxlen d \<and> length (items d) = maxlen d \<longrightarrow>
        items (deque_append d x) = tl (items d) @ [x])
   \<and> (length (items d) < maxlen d \<longrightarrow> items (deque_append d x) = items d @ [x])
   \<and> (length (items d) \<le> maxlen d \<longrightarrow>
        items (deque_extend d xs) = drop (length (items d @ xs) - maxlen d) (items d @ xs))
   \<and> (C < length xs \<longrightarrow>
        items (deque_extend (Deque C []) xs) = drop (length xs - C) xs
        \<and> length (items (deque_extend (Deque C []) xs)) = C)
   \<and> (add_keyframe m data now =
        m\<lparr>memory_chunks := deque_append (memory_chunks m)
         \<lparr>chunk_type = ''keyframe'',
           content = [(''description'', PStr ''Visual keyframe captured''),
                      (''ocr_text'', dict_get data ''ocr_text'' (PStr [])),
                      (''confidence'', dict_get data ''confidence'' (PInt 0))],
           timestamp = now\<rparr>\<rparr>)
   \<and> (map_of data ''text'' = Some tx \<longrightarrow>
        add_question m data now =
          Inr (m\<lparr>memory_chunks := deque_append (memory_chunks m)
              \<lparr>chunk_type = ''question'',
                content = [(''text'', tx),
                           (''confidence'', dict_get data ''confidence'' (PFloat 1))],
                timestamp = now\<rparr>,
                 total_interactions := total_interactions m + 1\<rparr>))
   \<and> (map_of data ''text'' = Some tx \<longrightarrow>
        add_answer m data now =
          Inr (m\<lparr>memory_chunks := deque_append (memory_chunks m)
              \<lparr>chunk_type = ''answer'',
                content = [(''text'', tx),
                           (''question'', dict_get data ''question'' (PStr []))],
                timestamp = now\<rparr>\<rparr>))
   \<and> (add_ocr_event m data now =
        (if truthy (dict_get data ''text'' PNone) then
           m\<lparr>memory_chunks := deque_append (memory_chunks m)
            \<lparr>chunk_type = ''ocr'',
              content = [(''text'', dict_get data ''text'' PNone),
                         (''confidence'', dict_get data ''confidence'' (PInt 0)),
                         (''word_count'', dict_get data ''word_count'' (PInt 0))],
              timestamp = now\<rparr>\<rparr>
         else m))
   \<and> (is_add op \<and> spec_appended op = [c] \<and> 0 < maxlen (memory_chunks m)
        \<and> length (items (memory_chunks m)) = maxlen (memory_chunks m) \<longrightarrow>
          items (memory_chunks (apply_op so m op)) = tl (items (memory_chunks m)) @ [c])
   \<and> (list_all is_add ops \<and> within_capacity (memory_chunks m) \<longrightarrow>
          items (memory_chunks (run_ops so m ops))
            = drop (length (items (memory_chunks m) @ concat (map spec_appended ops))
                     - maxlen (memory_chunks m))
                (items (memory_chunks m) @ concat (map spec_appended ops)))
   \<and> (list_all is_add ops
        \<and> MAX_MEMORY_CHUNKS cfg < length (concat (map spec_appended ops)) \<longrightarrow>
          items (memory_chunks (run_ops so (MemorySubsystem_init cfg t1 t2) ops))
            = drop (length (concat (map spec_appended ops)) - MAX_MEMORY_CHUNKS cfg)
                (concat (map spec_appended ops))
          \<and> length (items (memory_chunks (run_ops so (MemorySubsystem_init cfg t1 t2) ops)))
              = MAX_MEMORY_CHUNKS cfg)"
proof -
  let ?m0 = "MemorySubsystem_init cfg t1 t2"
  have w0: "within_capacity (memory_chunks ?m0)"
    by (simp add: MemorySubsystem_init_def within_capacity_def)
  then have "within_capacity (memory_chunks (run_ops so ?m0 ops))"
    by (rule run_ops_within)
  moreover have "maxlen (memory_chunks (run_ops so ?m0 ops)) = MAX_MEMORY_CHUNKS cfg"
    by (simp add: run_ops_maxlen MemorySubsystem_init_def)
  ultimately have inv: "length (items (memory_chunks (run_ops so ?m0 ops))) \<le> MAX_MEMORY_CHUNKS cfg"
    by (simp add: within_capacity_def)
  have a: "length (items d) \<le> maxlen d \<longrightarrow> length (items (deque_append d x)) \<le> maxlen d"
    by (simp add: deque_append_bounded)
  have b: "0 < maxlen d \<and> length (items d) = maxlen d \<longrightarrow>
        items (deque_append d x) = tl (items d) @ [x]"
    by (cases "items d") (auto simp: deque_append_items)
  have c: "length (items d) < maxlen d \<longrightarrow> items (deque_append d x) = items d @ [x]"
    by (simp add: deque_append_items)
  have e: "length (items d) \<le> maxlen d \<longrightarrow>
        items (deque_extend d xs) = drop (length (items d @ xs) - maxlen d) (items d @ xs)"
    by (simp add: deque_extend_drop)
  have f: "items (deque_extend (Deque C []) xs) = drop (length xs - C) xs"
    using deque_extend_drop [of "Deque C []" xs] by simp
  have g: "C < length xs \<longrightarrow> length (items (deque_extend (Deque C []) xs)) = C"
    unfolding f by simp
  have n1: "add_keyframe m data now =
        m\<lparr>memory_chunks := deque_append (memory_chunks m)
         \<lparr>chunk_type = ''keyframe'',
           content = [(''description'', PStr ''Visual keyframe captured''),
                      (''ocr_text'', dict_get data ''ocr_text'' (PStr [])),
                      (''confidence'', dict_get data ''confidence'' (PInt 0))],
           timestamp = now\<rparr>\<rparr>"
    by (rule add_keyframe_appends)
  have n2: "map_of data ''text'' = Some tx \<longrightarrow>
        add_question m data now =
          Inr (m\<lparr>memory_chunks := deque_append (memory_chunks m)
              \<lparr>chunk_type = ''question'',
                content = [(''text'', tx),
                           (''confidence'', dict_get data ''confidence'' (PFloat 1))],
                timestamp = now\<rparr>,
                 total_interactions := total_interactions m + 1\<rparr>)"
    by (simp add: add_question_appends)
  have n3: "map_of data ''text'' = Some tx \<longrightarrow>
        add_answer m data now =
          Inr (m\<lparr>memory_chunks := deque_append (memory_chunks m)
              \<lparr>chunk_type = ''answer'',
                content = [(''text'', tx),
                           (''question'', dict_get data ''question'' (PStr []))],
                timestamp = now\<rparr>\<rparr>)"
    by (simp add: add_answer_appends)
  have n4: "add_ocr_event m data now =
        (if truthy (dict_get data ''text'' PNone) then
           m\<lparr>memory_chunks := deque_append (memory_chunks m)
            \<lparr>chunk_type = ''ocr'',
              content = [(''text'', dict_get data ''text'' PNone),
                         (''confidence'', dict_get data ''confidence'' (PInt 0)),
                         (''word_count'', dict_get data ''word_count'' (PInt 0))],
              timestamp = now\<rparr>\<rparr>
         else m)"
    by (rule add_ocr_event_appends)
  have n5: "is_add op \<and> spec_appended op = [c] \<and> 0 < maxlen (memory_chunks m)
        \<and> length (items (memory_chunks m)) = maxlen (memory_chunks m) \<longrightarrow>
          items (memory_chunks (apply_op so m op)) = tl (items (memory_chunks m)) @ [c]"
    by (cases "items (memory_chunks m)") (auto simp: apply_op_add deque_append_items)
  have n6: "list_all is_add ops \<and> within_capacity (memory_chunks m) \<longrightarrow>
          items (memory_chunks (run_ops so m ops))
            = drop (length (items (memory_chunks m) @ concat (map spec_appended ops))
                     - maxlen (memory_chunks m))
                (items (memory_chunks m) @ concat (map spec_appended ops))"
    using run_ops_last [of ops m so] by blast
  have n7: "list_all is_add ops
        \<and> MAX_MEMORY_CHUNKS cfg < length (concat (map spec_appended ops)) \<longrightarrow>
          items (memory_chunks (run_ops so (MemorySubsystem_init cfg t1 t2) ops))
            = drop (length (concat (map spec_appended ops)) - MAX_MEMORY_CHUNKS cfg)
                (concat (map spec_appended ops))
          \<and> length (items (memory_chunks (run_ops so (MemorySubsystem_init cfg t1 t2) ops)))
              = MAX_MEMORY_CHUNKS cfg"
  proof (intro impI)
    assume h: "list_all is_add ops
        \<and> MAX_MEMORY_CHUNKS cfg < length (concat (map spec_appended ops))"
    have "items (memory_chunks (run_ops so ?m0 ops))
        = drop (length (items (memory_chunks ?m0) @ concat (map spec_appended ops))
                 - maxlen (memory_chunks ?m0))
            (items (memory_chunks ?m0) @ concat (map spec_appended ops))"
      using h w0 by (simp only: run_ops_last)
    then have i: "items (memory_chunks (run_ops so ?m0 ops))
        = drop (length (concat (map spec_appended ops)) - MAX_MEMORY_CHUNKS cfg)
            (concat (map spec_appended ops))"
      by (simp add: MemorySubsystem_init_def)
    show "items (memory_chunks (run_ops so ?m0 ops))
            = drop (length (concat (map spec_appended ops)) - MAX_MEMORY_CHUNKS cfg)
                (concat (map spec_appended ops))
          \<and> length (items (memory_chunks (run_ops so ?m0 ops))) = MAX_MEMORY_CHUNKS cfg"
      using h unfolding i by simp
  qed
  from inv a b c e f g n1 n2 n3 n4 n5 n6 n7 show ?thesis by blast
qed

theorem C1_store_bounded_fifo_witness:
  "length (items (memory_chunks (run_ops (\<lambda>xs. xs) (MemorySubsystem_init default_config 5 5)
       [AddKeyframe [] 6, AddOcrEvent [(''text'', PStr ''abc'')] 7]))) \<le> 100
   \<and> length (items (deque_append (Deque 2 [1, 2 :: nat]) 3)) \<le> 2
   \<and> items (deque_append (Deque 2 [1, 2 :: nat]) 3) = [2, 3]
   \<and> items (deque_append (Deque 3 [1, 2 :: nat]) 3) = [1, 2, 3]
   \<and> items (deque_extend (Deque 2 [1, 2 :: nat]) [3, 4, 5]) = [4, 5]
   \<and> items (deque_extend (Deque 2 []) [3, 4, 5 :: nat]) = [4, 5]
   \<and> length (items (deque_extend (Deque 2 []) [3, 4, 5 :: nat])) = 2
   \<and> items (memory_chunks (run_ops (\<lambda>xs. xs)
         (MemorySubsystem_init (default_config\<lparr>MAX_MEMORY_CHUNKS := 2\<rparr>) 5 5)
         [AddKeyframe [] 6, AddQuestion [(''text'', PStr ''why?'')] 7,
          AddOcrEvent [(''text'', PStr ''abc'')] 8]))
       = [\<lparr>chunk_type = ''question'',
            content = [(''text'', PStr ''why?''), (''confidence'', PFloat 1)],
            timestamp = 7\<rparr>,
          \<lparr>chunk_type = ''ocr'',
            content = [(''text'', PStr ''abc''), (''confidence'', PInt 0),
                       (''word_count'', PInt 0)],
            timestamp = 8\<rparr>]"
proof -
  let ?ops = "[AddKeyframe [] 6, AddQuestion [(''text'', PStr ''why?'')] 7,
          AddOcrEvent [(''text'', PStr ''abc'')] 8]"
  let ?cfg = "default_config\<lparr>MAX_MEMORY_CHUNKS := 2\<rparr>"
  have h: "list_all is_add ?ops
        \<and> MAX_MEMORY_CHUNKS ?cfg < length (concat (map spec_appended ?ops))"
    by (simp add: dict_get_def)
  note t = C1_store_bounded_fifo [where so = "\<lambda>xs. xs" and cfg = ?cfg and ?t1.0 = 5 and ?t2.0 = 5
      and ops = ?ops, THEN conjunct2, THEN conjunct2, THEN conjunct2, THEN conjunct2,
      THEN conjunct2, THEN conjunct2, THEN conjunct2, THEN conjunct2, THEN conjunct2,
      THEN conjunct2, THEN conjunct2, THEN conjunct2, THEN mp, OF h, THEN conjunct1]
  have store: "items (memory_chunks (run_ops (\<lambda>xs. xs) (MemorySubsystem_init ?cfg 5 5) ?ops))
       = [\<lparr>chunk_type = ''question'',
            content = [(''text'', PStr ''why?''), (''confidence'', PFloat 1)],
            timestamp = 7\<rparr>,
          \<lparr>chunk_type = ''ocr'',
            content = [(''text'', PStr ''abc''), (''confidence'', PInt 0),
                       (''word_count'', PInt 0)],
            timestamp = 8\<rparr>]"
    unfolding t by (simp add: dict_get_def)
  have older: "length (items (memory_chunks (run_ops (\<lambda>xs. xs) (MemorySubsystem_init default_config 5 5)
       [AddKeyframe [] 6, AddOcrEvent [(''text'', PStr ''abc'')] 7]))) \<le> 100
   \<and> length (items (deque_append (Deque 2 [1, 2 :: nat]) 3)) \<le> 2
   \<and> items (deque_append (Deque 2 [1, 2 :: nat]) 3) = [2, 3]
   \<and> items (deque_append (Deque 3 [1, 2 :: nat]) 3) = [1, 2, 3]
   \<and> items (deque_extend (Deque 2 [1, 2 :: nat]) [3, 4, 5]) = [4, 5]
   \<and> items (deque_extend (Deque 2 []) [3, 4, 5 :: nat]) = [4, 5]
   \<and> length (items (deque_extend (Deque 2 []) [3, 4, 5 :: nat])) = 2"
  proof -
    note u = C1_store_bounded_fifo [where so = "\<lambda>xs. xs" and cfg = default_config and ?t1.0 = 5 and ?t2.0 = 5
        and ops = "[AddKeyframe [] 6, AddOcrEvent [(''text'', PStr ''abc'')] 7]"
        and d = "Deque 2 [1, 2 :: nat]" and x = 3 and xs = "[3, 4, 5]" and C = 2]
    note v = C1_store_bounded_fifo [where d = "Deque 3 [1, 2 :: nat]" and x = 3]
    note u1 = u [THEN conjunct1]
    note u2 = u [THEN conjunct2, THEN conjunct1]
    note u3 = u [THEN conjunct2, THEN conjunct2, THEN conjunct1]
    note v4 = v [THEN conjunct2, THEN conjunct2, THEN conjunct2, THEN conjunct1]
    note u5 = u [THEN conjunct2, THEN conjunct2, THEN conjunct2, THEN conjunct2, THEN conjunct1]
    note u6 = u [THEN conjunct2, THEN conjunct2, THEN conjunct2, THEN conjunct2, THEN conjunct2,
        THEN conjunct1]
    show ?thesis
      using u1 u2 u3 v4 u5 u6 by (simp add: default_config_def)
  qed
  from older store show ?thesis by blast
qed

subsection \<open>The summarization scheduler\<close>

lemma gather_recent_readable:
  "list_all chunk_readable cs \<Longrightarrow> list_all hashable ro \<Longrightarrow>
   \<exists>q ocr k. gather_recent cs rq ro rk = Inr (q, ocr, k) \<and> list_all hashable ocr"
proof (induction cs arbitrary: rq ro rk)
  case Nil
  then show ?case by simp
next
  case (Cons c cs)
  then show ?case
    by (auto simp: chunk_readable_def split: option.splits if_splits)
qed

lemma create_summary_nonempty:
  assumes ne: "items (memory_chunks m) \<noteq> []"
    and rd: "list_all chunk_readable (items (memory_chunks m))"
  shows "\<exists>summary. create_summary so m t1 t2 t3 t4 =
      Inr (summary,
           m\<lparr>summaries := summaries m @ [\<lparr>chunk_type = ''summary'', content = summary, timestamp = t3\<rparr>],
             last_summary_time := t4\<rparr>)"
proof -
  obtain q ocr k where g: "gather_recent (items (memory_chunks m)) [] [] 0 = Inr (q, ocr, k)"
    and h: "list_all hashable ocr"
    using gather_recent_readable [OF rd, of "[]" "[]" 0] by auto
  show ?thesis
    using ne g h by (simp add: create_summary_def MemoryChunk_init_def Let_def)
qed

text \<open>
  C2. Right after construction the scheduler does not fire, provided the interval is
  positive. It fires exactly when the time since \<^verbatim>\<open>last_summary_time\<close> has reached the
  interval. Triggering on a store that holds no event returns the empty dictionary and
  changes nothing. Triggering on a store that holds at least one event, all of them
  readable, appends exactly one summary chunk to the list of summaries, leaves the
  events alone and sets \<^verbatim>\<open>last_summary_time\<close> to the last clock reading of the call, so
  that the scheduler does not fire at that reading.
\<close>

theorem C2_summary_trigger:
  assumes "0 < SUMMARY_INTERVAL_SECONDS cfg"
  shows "\<not> should_create_summary cfg (MemorySubsystem_init cfg t t') t
   \<and> should_create_summary cfg m now = (SUMMARY_INTERVAL_SECONDS cfg \<le> now - last_summary_time m)
   \<and> (items (memory_chunks m) = [] \<longrightarrow> create_summary so m t1 t2 t3 t4 = Inr ([], m))
   \<and> (items (memory_chunks m) \<noteq> [] \<and> list_all chunk_readable (items (memory_chunks m)) \<longrightarrow>
        (case create_summary so m t1 t2 t3 t4 of
           Inl e \<Rightarrow> False
         | Inr (summary, m') \<Rightarrow>
             summaries m' =
               summaries m @ [\<lparr>chunk_type = ''summary'', content = summary, timestamp = t3\<rparr>]
             \<and> length (summaries m') = Suc (length (summaries m))
             \<and> last_summary_time m' = t4
             \<and> memory_chunks m' = memory_chunks m
             \<and> \<not> should_create_summary cfg m' t4))"
proof -
  have a: "\<not> should_create_summary cfg (MemorySubsystem_init cfg t t') t"
    using assms by (simp add: should_create_summary_def MemorySubsystem_init_def)
  have b: "should_create_summary cfg m now = (SUMMARY_INTERVAL_SECONDS cfg \<le> now - last_summary_time m)"
    by (simp add: should_create_summary_def)
  have c: "items (memory_chunks m) = [] \<longrightarrow> create_summary so m t1 t2 t3 t4 = Inr ([], m)"
    by (simp add: create_summary_def)
  have d: "items (memory_chunks m) \<noteq> [] \<and> list_all chunk_readable (items (memory_chunks m)) \<longrightarrow>
        (case create_summary so m t1 t2 t3 t4 of
           Inl e \<Rightarrow> False
         | Inr (summary, m') \<Rightarrow>
             summaries m' =
               summaries m @ [\<lparr>chunk_type = ''summary'', content = summary, timestamp = t3\<rparr>]
             \<and> length (summaries m') = Suc (length (summaries m))
             \<and> last_summary_time m' = t4
             \<and> memory_chunks m' = memory_chunks m
             \<and> \<not> should_create_summary cfg m' t4)"
  proof
    assume h: "items (memory_chunks m) \<noteq> [] \<and> list_all chunk_readable (items (memory_chunks m))"
    then obtain summary where "create_summary so m t1 t2 t3 t4 =
      Inr (summary,
           m\<lparr>summaries := summaries m @ [\<lparr>chunk_type = ''summary'', content = summary, timestamp = t3\<rparr>],
             last_summary_time := t4\<rparr>)"
      using create_summary_nonempty [of m so t1 t2 t3 t4] by blast
    then show "case create_summary so m t1 t2 t3 t4 of
           Inl e \<Rightarrow> False
         | Inr (summary, m') \<Rightarrow>
             summaries m' =
               summaries m @ [\<lparr>chunk_type = ''summary'', content = summary, timestamp = t3\<rparr>]
             \<and> length (summaries m') = Suc (length (summaries m))
             \<and> last_summary_time m' = t4
             \<and> memory_chunks m' = memory_chunks m
             \<and> \<not> should_create_summary cfg m' t4"
      using assms by (simp add: should_create_summary_def)
  qed
  from a b c d show ?thesis by blast
qed

text \<open>
  On an empty store the trigger appends no summary and does not reset the timer: the
  scheduler fires before the call and still fires after it.
\<close>

theorem C2_summary_trigger_counterexample:
  "should_create_summary default_config (MemorySubsystem_init default_config 0 0) 200
   \<and> create_summary (\<lambda>xs. xs) (MemorySubsystem_init default_config 0 0) 200 200 200 200
       = Inr ([], MemorySubsystem_init default_config 0 0)
   \<and> summaries (MemorySubsystem_init default_config 0 0) = []
   \<and> last_summary_time (MemorySubsystem_init default_config 0 0) = 0"
  by (simp add: should_create_summary_def MemorySubsystem_init_def default_config_def
      create_summary_def)

theorem C2_summary_trigger_witness:
  "\<not> should_create_summary default_config (MemorySubsystem_init default_config 5 5) 5
   \<and> (case create_summary (\<lambda>xs. xs)
          \<lparr> memory_chunks = Deque 100 [\<lparr>chunk_type = ''question'',
                 content = [(''text'', PStr ''What is this?''), (''confidence'', PFloat 1)],
                 timestamp = 10\<rparr>],
             summaries = [], last_summary_time = 5, session_start_time = 5,
             total_interactions = 1 \<rparr> 200 201 202 203 of
         Inl e \<Rightarrow> False
       | Inr (summary, m') \<Rightarrow>
           length (summaries m') = 1 \<and> last_summary_time m' = 203
           \<and> \<not> should_create_summary default_config m' 203)"
  using C2_summary_trigger [where cfg = default_config and t = 5 and t' = 5 and so = "\<lambda>xs. xs"
      and ?t1.0 = 200 and ?t2.0 = 201 and ?t3.0 = 202 and ?t4.0 = 203
      and m = "\<lparr> memory_chunks = Deque 100 [\<lparr>chunk_type = ''question'',
                 content = [(''text'', PStr ''What is this?''), (''confidence'', PFloat 1)],
                 timestamp = 10\<rparr>],
             summaries = [], last_summary_time = 5, session_start_time = 5,
             total_interactions = 1 \<rparr>"]
  by (auto simp: default_config_def chunk_readable_def split: sum.splits prod.splits)

subsection \<open>The context package\<close>

lemma slice_from_neg_pos: "0 < k \<Longrightarrow> slice_from_neg xs k = drop (length xs - nat k) xs"
  by (simp add: slice_from_neg_def)

lemma length_slice_from_neg_5: "length (slice_from_neg xs 5) = min 5 (length xs)"
  by (simp add: slice_from_neg_def)




subsection \<open>Saving and loading\<close>

lemma from_dict_to_dict: "stamped c \<Longrightarrow> from_dict (to_dict strftime c) now = c"
  by (simp add: from_dict_def to_dict_def MemoryChunk_init_def stamped_def)

lemma stamped_from_dict: "now \<noteq> 0 \<Longrightarrow> stamped (from_dict d now)"
  by (simp add: from_dict_def MemoryChunk_init_def stamped_def)

lemma stamped_init_None: "now \<noteq> 0 \<Longrightarrow> stamped (MemoryChunk_init ty c None now)"
  by (simp add: MemoryChunk_init_def stamped_def)

lemma load_chunks_extend:
  "load_chunks dq ds clock i =
     deque_extend dq (map (\<lambda>(j, d). from_dict d (clock j)) (enumerate i ds))"
  by (induction dq ds clock i rule: load_chunks.induct) simp_all

lemma load_summaries_append:
  "load_summaries acc ds clock i =
     acc @ map (\<lambda>(j, d). from_dict d (clock j)) (enumerate i ds)"
  by (induction acc ds clock i rule: load_summaries.induct) simp_all

lemma rebuild_saved:
  "list_all stamped cs \<Longrightarrow>
   map (\<lambda>(j, d). from_dict d (clock j)) (enumerate i (map (to_dict strftime) cs)) = cs"
  by (induction cs arbitrary: i) (simp_all add: from_dict_to_dict)

lemma stamped_deque_append:
  "list_all stamped (items d) \<Longrightarrow> stamped x \<Longrightarrow> list_all stamped (items (deque_append d x))"
  by (cases "items d") (auto simp: deque_append_items)

lemma stamped_deque_extend:
  "list_all stamped (items d) \<Longrightarrow> list_all stamped xs \<Longrightarrow>
   list_all stamped (items (deque_extend d xs))"
  by (induction xs arbitrary: d) (simp_all add: stamped_deque_append)

lemma stamped_rebuilt:
  "\<forall>i. clock i \<noteq> 0 \<Longrightarrow>
   list_all stamped (map (\<lambda>(j, d). from_dict d (clock j)) (enumerate i ds))"
  by (induction ds arbitrary: i) (simp_all add: stamped_from_dict)

lemma apply_op_stamped:
  assumes "all_stamped m" and "op_clock_nonzero op"
  shows "all_stamped (apply_op so m op)"
proof (cases op)
  case (AddKeyframe d now)
  with assms show ?thesis
    by (simp add: all_stamped_def add_keyframe_def Let_def stamped_deque_append stamped_init_None)
next
  case (AddQuestion d now)
  with assms show ?thesis
    by (auto simp: all_stamped_def add_question_def Let_def stamped_deque_append
        stamped_init_None split: option.splits)
next
  case (AddAnswer d now)
  with assms show ?thesis
    by (auto simp: all_stamped_def add_answer_def Let_def stamped_deque_append
        stamped_init_None split: option.splits)
next
  case (AddOcrEvent d now)
  with assms show ?thesis
    by (simp add: all_stamped_def add_ocr_event_def Let_def stamped_deque_append
        stamped_init_None)
next
  case (CreateSummary t1 t2 t3 t4)
  with assms show ?thesis
    by (auto simp: all_stamped_def create_summary_def Let_def stamped_init_None
        split: sum.splits prod.splits if_splits)
next
  case (LoadFromFile fl t0 c1 c2)
  with assms show ?thesis
    by (auto simp: all_stamped_def load_from_file_def load_chunks_extend
        load_summaries_append stamped_deque_extend stamped_rebuilt deque_clear_def
        split: option.splits)
next
  case (Clear now)
  with assms show ?thesis
    by (simp add: all_stamped_def clear_def deque_clear_def)
qed

lemma run_ops_stamped:
  "all_stamped m \<Longrightarrow> list_all op_clock_nonzero ops \<Longrightarrow> all_stamped (run_ops so m ops)"
  by (induction ops arbitrary: m) (simp_all add: apply_op_stamped)

lemma load_saved_chunks:
  assumes "all_stamped m"
  shows "items (memory_chunks (snd (load_from_file fresh (Some (save_to_file strftime m)) t0 c1 c2)))
     = drop (length (items (memory_chunks m)) - maxlen (memory_chunks fresh))
         (items (memory_chunks m))"
  using assms
  by (simp add: load_from_file_def save_to_file_def load_chunks_extend rebuild_saved
      all_stamped_def deque_extend_drop deque_clear_def)

lemma load_saved_summaries:
  assumes "all_stamped m"
  shows "summaries (snd (load_from_file fresh (Some (save_to_file strftime m)) t0 c1 c2))
     = summaries m"
  using assms
  by (simp add: load_from_file_def save_to_file_def load_summaries_append rebuild_saved
      all_stamped_def)

text \<open>
  C8. Saving a store and loading the document into another store gives back the same
  events and the same summaries, with their contents and timestamps, and the same session
  start and interaction counter, provided the events fit the capacity of the loading store
  and every chunk is stamped. Every store reached from a fresh one by calls whose clock
  readings are not zero consists of stamped chunks. When the saved events exceed the
  capacity \<open>C\<close> of the loading store, it keeps the last \<open>C\<close> of them; the same holds of
  the entries of any document.
\<close>

theorem C8_save_load_roundtrip:
  "(all_stamped m \<and> length (items (memory_chunks m)) \<le> maxlen (memory_chunks fresh) \<longrightarrow>
      fst (load_from_file fresh (Some (save_to_file strftime m)) t0 c1 c2)
      \<and> items (memory_chunks (snd (load_from_file fresh (Some (save_to_file strftime m)) t0 c1 c2)))
          = items (memory_chunks m)
      \<and> summaries (snd (load_from_file fresh (Some (save_to_file strftime m)) t0 c1 c2))
          = summaries m
      \<and> session_start_time (snd (load_from_file fresh (Some (save_to_file strftime m)) t0 c1 c2))
          = session_start_time m
      \<and> total_interactions (snd (load_from_file fresh (Some (save_to_file strftime m)) t0 c1 c2))
          = total_interactions m)
   \<and> (list_all op_clock_nonzero ops \<longrightarrow>
        all_stamped (run_ops so (MemorySubsystem_init cfg t1 t2) ops))
   \<and> (all_stamped m \<longrightarrow>
        items (memory_chunks (snd (load_from_file fresh (Some (save_to_file strftime m)) t0 c1 c2)))
          = drop (length (items (memory_chunks m)) - maxlen (memory_chunks fresh))
              (items (memory_chunks m)))
   \<and> (doc_memory_chunks data = Some cs \<longrightarrow>
        items (memory_chunks (snd (load_from_file fresh (Some data) t0 c1 c2)))
          = drop (length cs - maxlen (memory_chunks fresh))
              (map (\<lambda>(j, d). from_dict d (c1 j)) (enumerate 0 cs)))"
proof -
  let ?l = "load_from_file fresh (Some (save_to_file strftime m)) t0 c1 c2"
  have a: "all_stamped m \<and> length (items (memory_chunks m)) \<le> maxlen (memory_chunks fresh) \<longrightarrow>
      fst ?l \<and> items (memory_chunks (snd ?l)) = items (memory_chunks m)
      \<and> summaries (snd ?l) = summaries m
      \<and> session_start_time (snd ?l) = session_start_time m
      \<and> total_interactions (snd ?l) = total_interactions m"
  proof
    assume h: "all_stamped m \<and> length (items (memory_chunks m)) \<le> maxlen (memory_chunks fresh)"
    have "fst ?l"
      by (simp add: load_from_file_def)
    moreover have "items (memory_chunks (snd ?l)) = items (memory_chunks m)"
      using h load_saved_chunks [of m fresh strftime t0 c1 c2] by simp
    moreover have "summaries (snd ?l) = summaries m"
      using h by (simp add: load_saved_summaries)
    moreover have "session_start_time (snd ?l) = session_start_time m"
      by (simp add: load_from_file_def save_to_file_def)
    moreover have "total_interactions (snd ?l) = total_interactions m"
      by (simp add: load_from_file_def save_to_file_def)
    ultimately show "fst ?l \<and> items (memory_chunks (snd ?l)) = items (memory_chunks m)
      \<and> summaries (snd ?l) = summaries m
      \<and> session_start_time (snd ?l) = session_start_time m
      \<and> total_interactions (snd ?l) = total_interactions m"
      by simp
  qed
  have b: "list_all op_clock_nonzero ops \<longrightarrow>
        all_stamped (run_ops so (MemorySubsystem_init cfg t1 t2) ops)"
  proof
    assume "list_all op_clock_nonzero ops"
    moreover have "all_stamped (MemorySubsystem_init cfg t1 t2)"
      by (simp add: all_stamped_def MemorySubsystem_init_def)
    ultimately show "all_stamped (run_ops so (MemorySubsystem_init cfg t1 t2) ops)"
      by (simp add: run_ops_stamped)
  qed
  have c: "all_stamped m \<longrightarrow>
        items (memory_chunks (snd ?l))
          = drop (length (items (memory_chunks m)) - maxlen (memory_chunks fresh))
              (items (memory_chunks m))"
    by (simp add: load_saved_chunks)
  have d: "doc_memory_chunks data = Some cs \<longrightarrow>
        items (memory_chunks (snd (load_from_file fresh (Some data) t0 c1 c2)))
          = drop (length cs - maxlen (memory_chunks fresh))
              (map (\<lambda>(j, d). from_dict d (c1 j)) (enumerate 0 cs))"
    by (simp add: load_from_file_def load_chunks_extend deque_extend_drop deque_clear_def)
  from a b c d show ?thesis by blast
qed

theorem C8_save_load_roundtrip_witness:
  "items (memory_chunks (snd (load_from_file (MemorySubsystem_init default_config 50 50)
       (Some (save_to_file (\<lambda>t. ''now'')
          \<lparr> memory_chunks = Deque 100
              [\<lparr>chunk_type = ''question'', content = [(''text'', PStr ''why?'')], timestamp = 1\<rparr>,
               \<lparr>chunk_type = ''answer'', content = [(''text'', PStr ''so'')], timestamp = 2\<rparr>],
            summaries = [\<lparr>chunk_type = ''summary'', content = [], timestamp = 3\<rparr>],
            last_summary_time = 3, session_start_time = 1, total_interactions = 1 \<rparr>))
       50 (\<lambda>i. 50) (\<lambda>i. 50))))
     = [\<lparr>chunk_type = ''question'', content = [(''text'', PStr ''why?'')], timestamp = 1\<rparr>,
        \<lparr>chunk_type = ''answer'', content = [(''text'', PStr ''so'')], timestamp = 2\<rparr>]
   \<and> items (memory_chunks (snd (load_from_file (MemorySubsystem_init (default_config\<lparr>MAX_MEMORY_CHUNKS := 1\<rparr>) 50 50)
       (Some (save_to_file (\<lambda>t. ''now'')
          \<lparr> memory_chunks = Deque 100
              [\<lparr>chunk_type = ''question'', content = [(''text'', PStr ''why?'')], timestamp = 1\<rparr>,
               \<lparr>chunk_type = ''answer'', content = [(''text'', PStr ''so'')], timestamp = 2\<rparr>],
            summaries = [\<lparr>chunk_type = ''summary'', content = [], timestamp = 3\<rparr>],
            last_summary_time = 3, session_start_time = 1, total_interactions = 1 \<rparr>))
       50 (\<lambda>i. 50) (\<lambda>i. 50))))
     = [\<lparr>chunk_type = ''answer'', content = [(''text'', PStr ''so'')], timestamp = 2\<rparr>]
   \<and> all_stamped (run_ops (\<lambda>xs. xs) (MemorySubsystem_init default_config 50 50)
        [AddKeyframe [] 51, AddOcrEvent [(''text'', PStr ''abc'')] 52])"
  using C8_save_load_roundtrip [where strftime = "\<lambda>t. ''now''" and ?t0.0 = 50
      and ?c1.0 = "\<lambda>i. 50" and ?c2.0 = "\<lambda>i. 50"
      and fresh = "MemorySubsystem_init default_config 50 50"
      and so = "\<lambda>xs. xs" and cfg = default_config and ?t1.0 = 50 and ?t2.0 = 50
      and ops = "[AddKeyframe [] 51, AddOcrEvent [(''text'', PStr ''abc'')] 52]"
      and m = "\<lparr> memory_chunks = Deque 100
              [\<lparr>chunk_type = ''question'', content = [(''text'', PStr ''why?'')], timestamp = 1\<rparr>,
               \<lparr>chunk_type = ''answer'', content = [(''text'', PStr ''so'')], timestamp = 2\<rparr>],
            summaries = [\<lparr>chunk_type = ''summary'', content = [], timestamp = 3\<rparr>],
            last_summary_time = 3, session_start_time = 1, total_interactions = 1 \<rparr>"]
    C8_save_load_roundtrip [where strftime = "\<lambda>t. ''now''" and ?t0.0 = 50
      and ?c1.0 = "\<lambda>i. 50" and ?c2.0 = "\<lambda>i. 50"
      and fresh = "MemorySubsystem_init (default_config\<lparr>MAX_MEMORY_CHUNKS := 1\<rparr>) 50 50"
      and m = "\<lparr> memory_chunks = Deque 100
              [\<lparr>chunk_type = ''question'', content = [(''text'', PStr ''why?'')], timestamp = 1\<rparr>,
               \<lparr>chunk_type = ''answer'', content = [(''text'', PStr ''so'')], timestamp = 2\<rparr>],
            summaries = [\<lparr>chunk_type = ''summary'', content = [], timestamp = 3\<rparr>],
            last_summary_time = 3, session_start_time = 1, total_interactions = 1 \<rparr>"]
  by (simp add: all_stamped_def stamped_def MemorySubsystem_init_def default_config_def)

subsection \<open>The question classifier\<close>

lemma py_lower_char_cases:
  "py_lower_char c = c \<or>
   (py_lower_char c = char_of (of_char c + 32 :: nat) \<and>
    ((65 \<le> (of_char c :: nat) \<and> (of_char c :: nat) \<le> 90) \<or>
     (192 \<le> (of_char c :: nat) \<and> (of_char c :: nat) \<le> 222)))"
  by (auto simp: py_lower_char_def Let_def)

lemma of_char_lower:
  "(of_char (py_lower_char c) :: nat) =
     (if (65 \<le> (of_char c :: nat) \<and> (of_char c :: nat) \<le> 90) \<or>
         (192 \<le> (of_char c :: nat) \<and> (of_char c :: nat) \<le> 222 \<and> (of_char c :: nat) \<noteq> 215)
      then of_char c + 32 else of_char c)"
  by (simp add: py_lower_char_def Let_def)

lemma py_lower_char_idem: "py_lower_char (py_lower_char c) = py_lower_char c"
proof -
  have "(of_char (py_lower_char (py_lower_char c)) :: nat) = of_char (py_lower_char c)"
    by (simp add: of_char_lower)
  then show ?thesis by (simp only: of_char_eq_iff)
qed

lemma py_isspace_lower: "py_isspace (py_lower_char c) = py_isspace c"
  unfolding py_isspace_def of_char_lower by auto

lemma lower_eq_fixed:
  assumes "(of_char k :: nat) < 65"
  shows "py_lower_char c = k \<longleftrightarrow> c = k"
proof -
  have "(of_char (py_lower_char c) :: nat) = of_char k \<longleftrightarrow> (of_char c :: nat) = of_char k"
    using assms by (auto simp: of_char_lower)
  then show ?thesis by (simp only: of_char_eq_iff)
qed

lemma lower_eq_qmark: "py_lower_char c = CHR ''?'' \<longleftrightarrow> c = CHR ''?''"
  by (rule lower_eq_fixed) simp

lemma lower_eq_newline: "py_lower_char c = CHR 0x0A \<longleftrightarrow> c = CHR 0x0A"
  by (rule lower_eq_fixed) simp

lemma lit_match_lower: "lit_match True w (py_lower s) = lit_match True w s"
proof (induction w arbitrary: s)
  case Nil
  show ?case by simp
next
  case (Cons p ps)
  show ?case
  proof (cases s)
    case Nil
    then show ?thesis by (simp add: py_lower_def)
  next
    case (Cons c cs)
    have "lit_match True ps (py_lower cs) = lit_match True ps cs"
      by (rule Cons.IH)
    then show ?thesis
      using Cons by (simp add: py_lower_def ci_eq_def py_lower_char_idem)
  qed
qed

lemma drop_py_lower: "drop i (py_lower s) = py_lower (drop i s)"
  by (simp add: py_lower_def drop_map)

lemma length_py_lower: "length (py_lower s) = length s"
  by (simp add: py_lower_def)

lemma rmatch_lower: "rmatch True r (py_lower s) i = rmatch True r s i"
proof (induction r arbitrary: i)
  case (Lit w)
  show ?case by (simp add: drop_py_lower lit_match_lower)
next
  case (Alt rs)
  then show ?case by (simp cong: map_cong)
next
  case (Cat r1 r2)
  have "(\<lambda>j. rmatch True r2 (py_lower s) j) = (\<lambda>j. rmatch True r2 s j)"
    by (rule ext) (rule Cat.IH(2))
  then show ?case by (simp add: Cat.IH(1))
next
  case Bol
  show ?case by simp
next
  case Eol
  show ?case
    by (auto simp: length_py_lower py_lower_def lower_eq_newline)
qed

lemma re_search_lower: "re_search True r (py_lower s) = re_search True r s"
  by (simp add: re_search_def rmatch_lower length_py_lower)

lemma dropWhile_space_lower:
  "dropWhile py_isspace (py_lower s) = py_lower (dropWhile py_isspace s)"
  by (induction s) (simp_all add: py_lower_def py_isspace_lower)

lemma rev_py_lower: "rev (py_lower s) = py_lower (rev s)"
  by (simp add: py_lower_def rev_map)

lemma py_strip_lower: "py_strip (py_lower s) = py_lower (py_strip s)"
  by (simp add: py_strip_def dropWhile_space_lower rev_py_lower)

lemma py_endswith_qmark: "py_endswith s ''?'' \<longleftrightarrow> s \<noteq> [] \<and> last s = CHR ''?''"
proof (cases s rule: rev_cases)
  case Nil
  then show ?thesis by (simp add: py_endswith_def)
next
  case (snoc ys y)
  then show ?thesis by (simp add: py_endswith_def)
qed

lemma py_endswith_lower: "py_endswith (py_lower s) ''?'' = py_endswith s ''?''"
proof (cases s rule: rev_cases)
  case Nil
  then show ?thesis by (simp add: py_lower_def)
next
  case (snoc ys y)
  then show ?thesis
    by (simp add: py_endswith_qmark py_lower_def lower_eq_qmark)
qed

lemma search_patterns_ex: "search_patterns ps t = list_ex (\<lambda>p. re_search True p t) ps"
  by (induction ps) simp_all

lemma is_question_refines:
  "is_question cfg txt = spec_is_question cfg (py_strip txt)"
proof -
  have "is_question cfg txt =
      (py_endswith (py_lower (py_strip txt)) ''?''
       \<or> list_ex (\<lambda>p. re_search True p (py_lower (py_strip txt))) (QUESTION_PATTERNS cfg))"
    by (simp add: is_question_def Let_def search_patterns_ex py_strip_lower)
  then show ?thesis
    by (simp add: spec_is_question_def py_endswith_lower re_search_lower)
qed

lemma lit_match_begins: "lit_match True w s = begins_with_ci w s"
proof (induction w arbitrary: s)
  case Nil
  show ?case by (simp add: begins_with_ci_def py_lower_def)
next
  case (Cons p ps)
  show ?case
  proof (cases s)
    case Nil
    then show ?thesis by (simp add: begins_with_ci_def)
  next
    case (Cons c cs)
    have "lit_match True ps cs = begins_with_ci ps cs"
      by (rule Cons.IH)
    then show ?thesis
      using Cons by (auto simp: begins_with_ci_def py_lower_def ci_eq_def)
  qed
qed

lemma rmatch_alt_lits:
  "rmatch ic (Alt (map Lit ws)) s i \<noteq> [] \<longleftrightarrow> list_ex (\<lambda>w. lit_match ic w (drop i s)) ws"
  by (induction ws) simp_all

lemma re_search_bol: "re_search ic (Cat Bol r) s = (rmatch ic r s 0 \<noteq> [])"
proof -
  have "rmatch ic (Cat Bol r) s i = (if i = 0 then rmatch ic r s 0 else [])" for i
    by simp
  then have "re_search ic (Cat Bol r) s
      = (\<exists>i \<in> set [0..<Suc (length s)]. (if i = 0 then rmatch ic r s 0 else []) \<noteq> [])"
    by (simp only: re_search_def list_ex_iff)
  also have "\<dots> = (rmatch ic r s 0 \<noteq> [])"
    by auto
  finally show ?thesis .
qed

lemma re_search_openers:
  "re_search True (Cat Bol (Alt (map Lit ws))) s = list_ex (\<lambda>w. begins_with_ci w s) ws"
  by (simp only: re_search_bol rmatch_alt_lits drop_0 lit_match_begins)

lemma re_search_phrases:
  "re_search True (Alt (map Lit ws)) s = list_ex (\<lambda>w. contains_ci w s) ws"
proof -
  have "re_search True (Alt (map Lit ws)) s
      = (\<exists>i \<in> set [0..<Suc (length s)]. \<exists>w \<in> set ws. begins_with_ci w (drop i s))"
    by (simp only: re_search_def list_ex_iff rmatch_alt_lits lit_match_begins)
  also have "\<dots> = (\<exists>w \<in> set ws. \<exists>i \<in> set [0..<Suc (length s)]. begins_with_ci w (drop i s))"
    by blast
  finally show ?thesis
    by (simp only: contains_ci_def list_ex_iff)
qed

lemma rmatch_qmark_eol:
  "rmatch True (Cat (Lit ''?'') Eol) s i =
     (if lit_match True ''?'' (drop i s)
         \<and> (Suc i = length s \<or> (Suc (Suc i) = length s \<and> s ! Suc i = CHR 0x0A))
      then [Suc i] else [])"
proof (cases "lit_match True ''?'' (drop i s)")
  case True
  then show ?thesis by simp
next
  case False
  then show ?thesis by simp
qed

lemma drop_last_one: "Suc i = length s \<Longrightarrow> drop i s = [last s]"
  by (cases s rule: rev_cases) simp_all

lemma re_search_qmark_eol:
  assumes "re_search True (Cat (Lit ''?'') Eol) s"
  shows "py_endswith s ''?'' \<or> (s \<noteq> [] \<and> last s = CHR 0x0A)"
proof -
  from assms obtain i where m: "rmatch True (Cat (Lit ''?'') Eol) s i \<noteq> []"
    unfolding re_search_def list_ex_iff by blast
  then have lm: "lit_match True ''?'' (drop i s)"
    and e: "Suc i = length s \<or> (Suc (Suc i) = length s \<and> s ! Suc i = CHR 0x0A)"
    unfolding rmatch_qmark_eol by (simp_all split: if_splits)
  from e show ?thesis
  proof
    assume l: "Suc i = length s"
    then have ne: "s \<noteq> []" by auto
    have d: "drop i s = [last s]"
      using l by (rule drop_last_one)
    have "py_lower_char (last s) = py_lower_char (CHR ''?'')"
      using lm unfolding d by (simp add: ci_eq_def)
    also have "\<dots> = CHR ''?''"
      by (simp add: py_lower_char_def)
    finally have "last s = CHR ''?''"
      by (simp only: lower_eq_qmark)
    with ne show ?thesis by (simp add: py_endswith_qmark)
  next
    assume h: "Suc (Suc i) = length s \<and> s ! Suc i = CHR 0x0A"
    then have ne: "s \<noteq> []" by auto
    have "last s = s ! (length s - 1)"
      using ne by (rule last_conv_nth)
    also have "length s - 1 = Suc i" using h by arith
    finally have "last s = CHR 0x0A" using h by simp
    with ne show ?thesis by simp
  qed
qed

lemma py_strip_last:
  assumes "py_strip t \<noteq> []"
  shows "\<not> py_isspace (last (py_strip t))"
proof -
  let ?u = "dropWhile py_isspace (rev (dropWhile py_isspace t))"
  have ne: "?u \<noteq> []" using assms by (simp add: py_strip_def)
  then have "\<not> py_isspace (hd ?u)" by (rule hd_dropWhile)
  moreover have "last (py_strip t) = hd ?u"
    using ne by (simp add: py_strip_def last_rev)
  ultimately show ?thesis by simp
qed

lemma qmark_pattern_on_stripped:
  "re_search True (Cat (Lit ''?'') Eol) (py_strip t) \<Longrightarrow> py_endswith (py_strip t) ''?''"
proof -
  assume a: "re_search True (Cat (Lit ''?'') Eol) (py_strip t)"
  have "\<not> (py_strip t \<noteq> [] \<and> last (py_strip t) = CHR 0x0A)"
  proof
    assume h: "py_strip t \<noteq> [] \<and> last (py_strip t) = CHR 0x0A"
    then have "py_isspace (last (py_strip t))" by (simp add: py_isspace_def)
    with h py_strip_last show False by blast
  qed
  with re_search_qmark_eol [OF a] show ?thesis by blast
qed

lemma default_patterns:
  "QUESTION_PATTERNS default_config =
     [Cat (Lit ''?'') Eol, Cat Bol (Alt (map Lit interrogative_openers)),
      Alt (map Lit question_phrases)]"
  by (simp add: default_config_def interrogative_openers_def question_phrases_def)

lemma spec_default_on_stripped:
  "spec_is_question default_config (py_strip t) = spec_opener_or_phrase (py_strip t)"
  unfolding spec_is_question_def spec_opener_or_phrase_def default_patterns
  using qmark_pattern_on_stripped [of t]
  by (auto simp only: list_ex_iff list.set insert_iff empty_iff bex_simps re_search_openers re_search_phrases)

text \<open>
  C4. For every text of code points below 256, the classifier answers for the text with
  the white space at its ends removed: it returns true exactly when that text ends with a
  question mark or one of the configured patterns matches it without regard to case. With
  the configured patterns, that is when it ends with a question mark, begins with one of
  the interrogative openers or contains one of the phrases. The four examples of the
  specification are classified as it says. Texts with code points from 256 on are not
  covered: on them \<^verbatim>\<open>str.lower\<close> can change the number of code points, as it does for
  the capital I with a dot above.
\<close>

theorem C4_question_classifier:
  "is_question cfg txt = spec_is_question cfg (py_strip txt)
   \<and> is_question default_config txt = spec_opener_or_phrase (py_strip txt)
   \<and> is_question default_config ''What does this do?''
   \<and> is_question default_config ''Can you explain this?''
   \<and> is_question default_config ''WHAT is this''
   \<and> \<not> is_question default_config ''This looks good''"
proof -
  have a: "is_question cfg txt = spec_is_question cfg (py_strip txt)"
    by (rule is_question_refines)
  have b: "is_question default_config txt = spec_opener_or_phrase (py_strip txt)"
    by (simp only: is_question_refines spec_default_on_stripped)
  have c: "is_question default_config ''What does this do?''"
    by code_simp
  have d: "is_question default_config ''Can you explain this?''"
    by code_simp
  have e: "is_question default_config ''WHAT is this''"
    by code_simp
  have f: "\<not> is_question default_config ''This looks good''"
    by code_simp
  from a b c d e f show ?thesis by blast
qed

theorem C4_question_classifier_witness:
  "is_question default_config ''  please HELP  ''
   \<and> spec_opener_or_phrase ''please HELP''"
proof -
  have s: "py_strip ''  please HELP  '' = ''please HELP''"
    by code_simp
  have p: "spec_opener_or_phrase ''please HELP''"
    by code_simp
  have "is_question default_config ''  please HELP  ''
      = spec_opener_or_phrase (py_strip ''  please HELP  '')"
    using C4_question_classifier [of default_config "''  please HELP  ''"] by blast
  with s p show ?thesis by simp
qed

text \<open>
  A text with white space after its question mark is a question for the classifier,
  although the text itself does not end with a question mark and no pattern matches it.
\<close>

theorem C4_question_classifier_counterexample:
  "is_question default_config ''ok? ''
   \<and> \<not> py_endswith ''ok? '' ''?''
   \<and> \<not> spec_is_question default_config ''ok? ''
   \<and> \<not> spec_opener_or_phrase ''ok? ''"
proof -
  have a: "is_question default_config ''ok? ''" by code_simp
  have b: "\<not> py_endswith ''ok? '' ''?''" by code_simp
  have c: "\<not> spec_is_question default_config ''ok? ''" by code_simp
  have d: "\<not> spec_opener_or_phrase ''ok? ''" by code_simp
  from a b c d show ?thesis by blast
qed

subsection \<open>Voice activity and the speaker filter\<close>

lemma sqrt_threshold: "500 < sqrt x \<longleftrightarrow> 250000 < x"
proof -
  have "sqrt 250000 = 500"
    by (rule real_sqrt_unique) simp_all
  then have "500 < sqrt x \<longleftrightarrow> sqrt 250000 < sqrt x" by simp
  then show ?thesis by (simp only: real_sqrt_less_iff)
qed

lemma energy_threshold:
  "500 < energy xs \<longleftrightarrow> 250000 < sum_list (map (\<lambda>x. (real_of_int x)\<^sup>2) xs) / real (length xs)"
  by (simp only: energy_def sqrt_threshold)

lemma is_user_speaking_similarity:
  assumes "user_voiceprint a = Some v"
    and "np_dot w (extract_speaker_embedding w chunk) v = Inr (F64 similarity)"
  shows "is_user_speaking cfg a w chunk =
      Inr (SPEAKER_ID_THRESHOLD cfg < similarity,
           if SPEAKER_ID_THRESHOLD cfg < similarity then a
           else a\<lparr>non_user_speech_count := non_user_speech_count a + 1\<rparr>)"
  using assms by (simp add: is_user_speaking_def Let_def)

lemma is_user_speaking_not_finite:
  assumes "user_voiceprint a = Some v"
    and "np_dot w (extract_speaker_embedding w chunk) v = Inr x"
  shows "x = PosInf \<Longrightarrow> is_user_speaking cfg a w chunk = Inr (True, a)"
    and "x = NegInf \<or> x = NaN \<Longrightarrow> is_user_speaking cfg a w chunk =
      Inr (False, a\<lparr>non_user_speech_count := non_user_speech_count a + 1\<rparr>)"
  using assms by (auto simp: is_user_speaking_def Let_def)

lemma is_user_speaking_raises:
  assumes "user_voiceprint a = Some v"
    and "np_dot w (extract_speaker_embedding w chunk) v = Inl e"
  shows "is_user_speaking cfg a w chunk = Inl e"
  using assms by (simp add: is_user_speaking_def)

lemma detect_voiceprint:
  "detect_voice_activity cfg a w chunk = Inr (b, a1) \<Longrightarrow> user_voiceprint a1 = user_voiceprint a"
  by (auto simp: detect_voice_activity_def Let_def split: if_splits option.splits sum.splits)

text \<open>
  C3. The embedding is the random vector divided by its norm, and the similarity is what
  \<^verbatim>\<open>np.dot\<close> returns for the embedding and the stored voiceprint. For every threshold, the speaker is classified as the user exactly
  when the similarity is a number above the threshold; otherwise the counter of non-user
  speech goes up by one. So a similarity of 1 is classified as the user under every
  threshold below 1, and the pipeline then returns no question; a similarity of 0 is
  classified as not the user under every threshold from 0 on. An infinite similarity is
  classified by its sign, a similarity that is not a number as not the user, and an error
  of \<^verbatim>\<open>np.dot\<close> is passed on.
\<close>

theorem C3_speaker_filter:
  "(user_voiceprint a = Some v
      \<and> np_dot w (extract_speaker_embedding w chunk) v = Inr (F64 similarity) \<longrightarrow>
        is_user_speaking cfg a w chunk =
          Inr (SPEAKER_ID_THRESHOLD cfg < similarity,
               if SPEAKER_ID_THRESHOLD cfg < similarity then a
               else a\<lparr>non_user_speech_count := non_user_speech_count a + 1\<rparr>))
   \<and> (user_voiceprint a = Some v
        \<and> np_dot w (extract_speaker_embedding w chunk) v = Inr (F64 1)
        \<and> SPEAKER_ID_THRESHOLD cfg < 1 \<longrightarrow>
          is_user_speaking cfg a w chunk = Inr (True, a))
   \<and> (capture_audio_chunk a0 w = Some chunk
        \<and> detect_voice_activity cfg a0 w chunk = Inr (True, a)
        \<and> user_voiceprint a = Some v
        \<and> np_dot w (extract_speaker_embedding w chunk) v = Inr (F64 1)
        \<and> SPEAKER_ID_THRESHOLD cfg < 1 \<longrightarrow>
          process_audio_stream cfg a0 w = Inr (None, a))
   \<and> (user_voiceprint a = Some v
        \<and> np_dot w (extract_speaker_embedding w chunk) v = Inr (F64 0)
        \<and> 0 \<le> SPEAKER_ID_THRESHOLD cfg \<longrightarrow>
          is_user_speaking cfg a w chunk =
            Inr (False, a\<lparr>non_user_speech_count := non_user_speech_count a + 1\<rparr>))
   \<and> (user_voiceprint a = Some v
        \<and> np_dot w (extract_speaker_embedding w chunk) v = Inr PosInf \<longrightarrow>
          is_user_speaking cfg a w chunk = Inr (True, a))
   \<and> (user_voiceprint a = Some v
        \<and> (np_dot w (extract_speaker_embedding w chunk) v = Inr NegInf
           \<or> np_dot w (extract_speaker_embedding w chunk) v = Inr NaN) \<longrightarrow>
          is_user_speaking cfg a w chunk =
            Inr (False, a\<lparr>non_user_speech_count := non_user_speech_count a + 1\<rparr>))
   \<and> (user_voiceprint a = Some v
        \<and> np_dot w (extract_speaker_embedding w chunk) v = Inl e \<longrightarrow>
          is_user_speaking cfg a w chunk = Inl e)
   \<and> extract_speaker_embedding w chunk = np_divide w (randn w) (np_linalg_norm w (randn w))"
proof -
  have gen: "is_user_speaking cfg a w chunk =
          Inr (SPEAKER_ID_THRESHOLD cfg < s,
               if SPEAKER_ID_THRESHOLD cfg < s then a
               else a\<lparr>non_user_speech_count := non_user_speech_count a + 1\<rparr>)"
    if "user_voiceprint a = Some v"
      and "np_dot w (extract_speaker_embedding w chunk) v = Inr (F64 s)" for s
    using that by (rule is_user_speaking_similarity)
  have one: "is_user_speaking cfg a w chunk = Inr (True, a)"
    if "user_voiceprint a = Some v"
      and "np_dot w (extract_speaker_embedding w chunk) v = Inr (F64 1)"
      and "SPEAKER_ID_THRESHOLD cfg < 1"
    using that by (simp add: is_user_speaking_similarity)
  have pipe: "process_audio_stream cfg a0 w = Inr (None, a)"
    if "capture_audio_chunk a0 w = Some chunk"
      and "detect_voice_activity cfg a0 w chunk = Inr (True, a)"
      and "user_voiceprint a = Some v"
      and "np_dot w (extract_speaker_embedding w chunk) v = Inr (F64 1)"
      and "SPEAKER_ID_THRESHOLD cfg < 1"
    using that one by (simp add: process_audio_stream_def)
  have zero: "is_user_speaking cfg a w chunk =
            Inr (False, a\<lparr>non_user_speech_count := non_user_speech_count a + 1\<rparr>)"
    if "user_voiceprint a = Some v"
      and "np_dot w (extract_speaker_embedding w chunk) v = Inr (F64 0)"
      and "0 \<le> SPEAKER_ID_THRESHOLD cfg"
    using that by (simp add: is_user_speaking_similarity)
  have inf: "is_user_speaking cfg a w chunk = Inr (True, a)"
    if "user_voiceprint a = Some v"
      and "np_dot w (extract_speaker_embedding w chunk) v = Inr PosInf"
    using that is_user_speaking_not_finite(1) by blast
  have nan: "is_user_speaking cfg a w chunk =
            Inr (False, a\<lparr>non_user_speech_count := non_user_speech_count a + 1\<rparr>)"
    if "user_voiceprint a = Some v"
      and "np_dot w (extract_speaker_embedding w chunk) v = Inr NegInf
           \<or> np_dot w (extract_speaker_embedding w chunk) v = Inr NaN"
    using that is_user_speaking_not_finite(2) by blast
  have err: "is_user_speaking cfg a w chunk = Inl e"
    if "user_voiceprint a = Some v"
      and "np_dot w (extract_speaker_embedding w chunk) v = Inl e"
    using that by (rule is_user_speaking_raises)
  have emb: "extract_speaker_embedding w chunk
      = np_divide w (randn w) (np_linalg_norm w (randn w))"
    by (simp add: extract_speaker_embedding_def Let_def)
  from gen one pipe zero inf nan err emb show ?thesis by blast
qed

lemma unit_world_embedding:
  "extract_speaker_embedding
       \<lparr> AUDIO_AVAILABLE = True, stream_read = Some [], mock_chunk = [],
         vad_is_speech = (\<lambda>f. Some True), random_draw = 0, randn = [2, 0],
         np_linalg_norm = exact_norm, np_divide = exact_divide, np_dot = exact_dot,
         random_choice = 0, random_confidence = 0.9, transcribe_time = 7 \<rparr> [] = [F64 1, F64 0]"
  by (simp add: extract_speaker_embedding_def exact_norm_def exact_divide_def)

lemma unit_world_similarity:
  "np_dot \<lparr> AUDIO_AVAILABLE = True, stream_read = Some [], mock_chunk = [],
         vad_is_speech = (\<lambda>f. Some True), random_draw = 0, randn = [2, 0],
         np_linalg_norm = exact_norm, np_divide = exact_divide, np_dot = exact_dot,
         random_choice = 0, random_confidence = 0.9, transcribe_time = 7 \<rparr>
       (extract_speaker_embedding
       \<lparr> AUDIO_AVAILABLE = True, stream_read = Some [], mock_chunk = [],
         vad_is_speech = (\<lambda>f. Some True), random_draw = 0, randn = [2, 0],
         np_linalg_norm = exact_norm, np_divide = exact_divide, np_dot = exact_dot,
         random_choice = 0, random_confidence = 0.9, transcribe_time = 7 \<rparr> []) [1, 0] = Inr (F64 1)
   \<and> np_dot \<lparr> AUDIO_AVAILABLE = True, stream_read = Some [], mock_chunk = [],
         vad_is_speech = (\<lambda>f. Some True), random_draw = 0, randn = [2, 0],
         np_linalg_norm = exact_norm, np_divide = exact_divide, np_dot = exact_dot,
         random_choice = 0, random_confidence = 0.9, transcribe_time = 7 \<rparr>
       (extract_speaker_embedding
       \<lparr> AUDIO_AVAILABLE = True, stream_read = Some [], mock_chunk = [],
         vad_is_speech = (\<lambda>f. Some True), random_draw = 0, randn = [2, 0],
         np_linalg_norm = exact_norm, np_divide = exact_divide, np_dot = exact_dot,
         random_choice = 0, random_confidence = 0.9, transcribe_time = 7 \<rparr> []) [0, 1] = Inr (F64 0)"
  by (simp add: unit_world_embedding exact_dot_def)

theorem C3_speaker_filter_witness:
  "is_user_speaking default_config
       \<lparr> vad = True, user_voiceprint = Some [1, 0], is_recording = True,
         speech_count = 0, non_user_speech_count = 0 \<rparr>
       \<lparr> AUDIO_AVAILABLE = True, stream_read = Some [], mock_chunk = [],
         vad_is_speech = (\<lambda>f. Some True), random_draw = 0, randn = [2, 0],
         np_linalg_norm = exact_norm, np_divide = exact_divide, np_dot = exact_dot,
         random_choice = 0, random_confidence = 0.9, transcribe_time = 7 \<rparr> []
     = Inr (True,
       \<lparr> vad = True, user_voiceprint = Some [1, 0], is_recording = True,
         speech_count = 0, non_user_speech_count = 0 \<rparr>)
   \<and> is_user_speaking default_config
       \<lparr> vad = True, user_voiceprint = Some [0, 1], is_recording = True,
         speech_count = 0, non_user_speech_count = 0 \<rparr>
       \<lparr> AUDIO_AVAILABLE = True, stream_read = Some [], mock_chunk = [],
         vad_is_speech = (\<lambda>f. Some True), random_draw = 0, randn = [2, 0],
         np_linalg_norm = exact_norm, np_divide = exact_divide, np_dot = exact_dot,
         random_choice = 0, random_confidence = 0.9, transcribe_time = 7 \<rparr> []
     = Inr (False,
       \<lparr> vad = True, user_voiceprint = Some [0, 1], is_recording = True,
         speech_count = 0, non_user_speech_count = 1 \<rparr>)"
proof -
  have t: "SPEAKER_ID_THRESHOLD default_config < 1" "0 \<le> SPEAKER_ID_THRESHOLD default_config"
    by (simp_all add: default_config_def)
  have u: "is_user_speaking default_config
       \<lparr> vad = True, user_voiceprint = Some [1, 0], is_recording = True,
         speech_count = 0, non_user_speech_count = 0 \<rparr>
       \<lparr> AUDIO_AVAILABLE = True, stream_read = Some [], mock_chunk = [],
         vad_is_speech = (\<lambda>f. Some True), random_draw = 0, randn = [2, 0],
         np_linalg_norm = exact_norm, np_divide = exact_divide, np_dot = exact_dot,
         random_choice = 0, random_confidence = 0.9, transcribe_time = 7 \<rparr> []
     = Inr (True,
       \<lparr> vad = True, user_voiceprint = Some [1, 0], is_recording = True,
         speech_count = 0, non_user_speech_count = 0 \<rparr>)"
    using C3_speaker_filter [where cfg = default_config and v = "[1, 0]" and chunk = "[]"
        and a = "\<lparr> vad = True, user_voiceprint = Some [1, 0], is_recording = True,
         speech_count = 0, non_user_speech_count = 0 \<rparr>"
        and w = "\<lparr> AUDIO_AVAILABLE = True, stream_read = Some [], mock_chunk = [],
         vad_is_speech = (\<lambda>f. Some True), random_draw = 0, randn = [2, 0],
         np_linalg_norm = exact_norm, np_divide = exact_divide, np_dot = exact_dot,
         random_choice = 0, random_confidence = 0.9, transcribe_time = 7 \<rparr>", THEN conjunct2, THEN conjunct1]
      unit_world_similarity t
    by simp
  have n: "is_user_speaking default_config
       \<lparr> vad = True, user_voiceprint = Some [0, 1], is_recording = True,
         speech_count = 0, non_user_speech_count = 0 \<rparr>
       \<lparr> AUDIO_AVAILABLE = True, stream_read = Some [], mock_chunk = [],
         vad_is_speech = (\<lambda>f. Some True), random_draw = 0, randn = [2, 0],
         np_linalg_norm = exact_norm, np_divide = exact_divide, np_dot = exact_dot,
         random_choice = 0, random_confidence = 0.9, transcribe_time = 7 \<rparr> []
     = Inr (False,
       \<lparr> vad = True, user_voiceprint = Some [0, 1], is_recording = True,
         speech_count = 0, non_user_speech_count = 1 \<rparr>)"
    using C3_speaker_filter [where cfg = default_config and v = "[0, 1]" and chunk = "[]"
        and a = "\<lparr> vad = True, user_voiceprint = Some [0, 1], is_recording = True,
         speech_count = 0, non_user_speech_count = 0 \<rparr>"
        and w = "\<lparr> AUDIO_AVAILABLE = True, stream_read = Some [], mock_chunk = [],
         vad_is_speech = (\<lambda>f. Some True), random_draw = 0, randn = [2, 0],
         np_linalg_norm = exact_norm, np_divide = exact_divide, np_dot = exact_dot,
         random_choice = 0, random_confidence = 0.9, transcribe_time = 7 \<rparr>", THEN conjunct2, THEN conjunct2, THEN conjunct2, THEN conjunct1]
      unit_world_similarity t
    by simp
  from u n show ?thesis by blast
qed

text \<open>
  The drawn vector (2, 0) has the embedding (1, 0). With the threshold 1 a similarity of
  1, that of an embedding identical to the voiceprint, is not classified as the user; with the threshold -1 a similarity of 0,
  that of an embedding orthogonal to the voiceprint, is.
\<close>

theorem C3_speaker_filter_counterexample:
  "SPEAKER_ID_THRESHOLD (default_config\<lparr>SPEAKER_ID_THRESHOLD := 1\<rparr>) \<le> 1
   \<and> extract_speaker_embedding
       \<lparr> AUDIO_AVAILABLE = True, stream_read = Some [], mock_chunk = [],
         vad_is_speech = (\<lambda>f. Some True), random_draw = 0, randn = [2, 0],
         np_linalg_norm = exact_norm, np_divide = exact_divide, np_dot = exact_dot,
         random_choice = 0, random_confidence = 0.9, transcribe_time = 7 \<rparr> [] = [F64 1, F64 0]
   \<and> np_dot \<lparr> AUDIO_AVAILABLE = True, stream_read = Some [], mock_chunk = [],
         vad_is_speech = (\<lambda>f. Some True), random_draw = 0, randn = [2, 0],
         np_linalg_norm = exact_norm, np_divide = exact_divide, np_dot = exact_dot,
         random_choice = 0, random_confidence = 0.9, transcribe_time = 7 \<rparr>
       (extract_speaker_embedding
       \<lparr> AUDIO_AVAILABLE = True, stream_read = Some [], mock_chunk = [],
         vad_is_speech = (\<lambda>f. Some True), random_draw = 0, randn = [2, 0],
         np_linalg_norm = exact_norm, np_divide = exact_divide, np_dot = exact_dot,
         random_choice = 0, random_confidence = 0.9, transcribe_time = 7 \<rparr> []) [1, 0] = Inr (F64 1)
   \<and> is_user_speaking (default_config\<lparr>SPEAKER_ID_THRESHOLD := 1\<rparr>)
       \<lparr> vad = True, user_voiceprint = Some [1, 0], is_recording = True,
         speech_count = 0, non_user_speech_count = 0 \<rparr>
       \<lparr> AUDIO_AVAILABLE = True, stream_read = Some [], mock_chunk = [],
         vad_is_speech = (\<lambda>f. Some True), random_draw = 0, randn = [2, 0],
         np_linalg_norm = exact_norm, np_divide = exact_divide, np_dot = exact_dot,
         random_choice = 0, random_confidence = 0.9, transcribe_time = 7 \<rparr> []
     = Inr (False,
       \<lparr> vad = True, user_voiceprint = Some [1, 0], is_recording = True,
         speech_count = 0, non_user_speech_count = 1 \<rparr>)
   \<and> SPEAKER_ID_THRESHOLD (default_config\<lparr>SPEAKER_ID_THRESHOLD := - 1\<rparr>) \<le> 1
   \<and> np_dot \<lparr> AUDIO_AVAILABLE = True, stream_read = Some [], mock_chunk = [],
         vad_is_speech = (\<lambda>f. Some True), random_draw = 0, randn = [2, 0],
         np_linalg_norm = exact_norm, np_divide = exact_divide, np_dot = exact_dot,
         random_choice = 0, random_confidence = 0.9, transcribe_time = 7 \<rparr>
       (extract_speaker_embedding
       \<lparr> AUDIO_AVAILABLE = True, stream_read = Some [], mock_chunk = [],
         vad_is_speech = (\<lambda>f. Some True), random_draw = 0, randn = [2, 0],
         np_linalg_norm = exact_norm, np_divide = exact_divide, np_dot = exact_dot,
         random_choice = 0, random_confidence = 0.9, transcribe_time = 7 \<rparr> []) [0, 1] = Inr (F64 0)
   \<and> is_user_speaking (default_config\<lparr>SPEAKER_ID_THRESHOLD := - 1\<rparr>)
       \<lparr> vad = True, user_voiceprint = Some [0, 1], is_recording = True,
         speech_count = 0, non_user_speech_count = 0 \<rparr>
       \<lparr> AUDIO_AVAILABLE = True, stream_read = Some [], mock_chunk = [],
         vad_is_speech = (\<lambda>f. Some True), random_draw = 0, randn = [2, 0],
         np_linalg_norm = exact_norm, np_divide = exact_divide, np_dot = exact_dot,
         random_choice = 0, random_confidence = 0.9, transcribe_time = 7 \<rparr> []
     = Inr (True,
       \<lparr> vad = True, user_voiceprint = Some [0, 1], is_recording = True,
         speech_count = 0, non_user_speech_count = 0 \<rparr>)"
  using unit_world_embedding unit_world_similarity
  by (simp add: is_user_speaking_def)

text \<open>
  C10. With no voiceprint stored, the speaker check answers that the speaker is not the
  user, whatever the frame, and changes nothing. A frame that is captured and passes
  voice-activity detection then always reaches transcription: the pipeline returns the
  transcription when it is a question and nothing otherwise.
\<close>

theorem C10_no_voiceprint:
  "(user_voiceprint a = None \<longrightarrow> is_user_speaking cfg a w chunk = Inr (False, a))
   \<and> (user_voiceprint a = None
        \<and> capture_audio_chunk a w = Some chunk
        \<and> detect_voice_activity cfg a w chunk = Inr (True, a1) \<longrightarrow>
          process_audio_stream cfg a w =
            Inr (if tr_is_question (transcribe_speech cfg w chunk)
                 then Some (transcribe_speech cfg w chunk) else None, a1))"
proof -
  have a: "is_user_speaking cfg a w chunk = Inr (False, a)" if "user_voiceprint a = None" for a
    using that by (simp add: is_user_speaking_def)
  have b: "process_audio_stream cfg a w =
            Inr (if tr_is_question (transcribe_speech cfg w chunk)
                 then Some (transcribe_speech cfg w chunk) else None, a1)"
    if n: "user_voiceprint a = None" and c: "capture_audio_chunk a w = Some chunk"
      and d: "detect_voice_activity cfg a w chunk = Inr (True, a1)"
  proof -
    have "user_voiceprint a1 = None"
      using detect_voiceprint [OF d] n by simp
    then have "is_user_speaking cfg a1 w chunk = Inr (False, a1)"
      by (rule a)
    then show ?thesis
      using c d by (simp add: process_audio_stream_def Let_def)
  qed
  from a b show ?thesis by blast
qed

theorem C10_no_voiceprint_witness:
  "process_audio_stream default_config
       \<lparr> vad = False, user_voiceprint = None, is_recording = True,
         speech_count = 0, non_user_speech_count = 0 \<rparr>
       \<lparr> AUDIO_AVAILABLE = False, stream_read = None, mock_chunk = [1, 0],
         vad_is_speech = (\<lambda>f. None), random_draw = 0.1, randn = [1],
         np_linalg_norm = exact_norm, np_divide = exact_divide, np_dot = exact_dot,
         random_choice = 6, random_confidence = 0.9, transcribe_time = 7 \<rparr>
     = Inr (None,
       \<lparr> vad = False, user_voiceprint = None, is_recording = True,
         speech_count = 0, non_user_speech_count = 0 \<rparr>)
   \<and> process_audio_stream default_config
       \<lparr> vad = False, user_voiceprint = None, is_recording = True,
         speech_count = 0, non_user_speech_count = 0 \<rparr>
       \<lparr> AUDIO_AVAILABLE = False, stream_read = None, mock_chunk = [1, 0],
         vad_is_speech = (\<lambda>f. None), random_draw = 0.1, randn = [1],
         np_linalg_norm = exact_norm, np_divide = exact_divide, np_dot = exact_dot,
         random_choice = 2, random_confidence = 0.9, transcribe_time = 7 \<rparr>
     = Inr (Some \<lparr> tr_text = ''How do I fix this bug?'', tr_is_question = True,
                   tr_confidence = 0.9, tr_timestamp = 7 \<rparr>,
       \<lparr> vad = False, user_voiceprint = None, is_recording = True,
         speech_count = 0, non_user_speech_count = 0 \<rparr>)"
proof -
  have q: "is_question default_config ''How do I fix this bug?''" by code_simp
  have n: "\<not> is_question default_config ''This looks good''" by code_simp
  show ?thesis
    using C10_no_voiceprint [where cfg = default_config and chunk = "[1, 0]"
        and a = "\<lparr> vad = False, user_voiceprint = None, is_recording = True,
         speech_count = 0, non_user_speech_count = 0 \<rparr>"
        and ?a1.0 = "\<lparr> vad = False, user_voiceprint = None, is_recording = True,
         speech_count = 0, non_user_speech_count = 0 \<rparr>"
        and w = "\<lparr> AUDIO_AVAILABLE = False, stream_read = None, mock_chunk = [1, 0],
         vad_is_speech = (\<lambda>f. None), random_draw = 0.1, randn = [1],
         np_linalg_norm = exact_norm, np_divide = exact_divide, np_dot = exact_dot,
         random_choice = 6, random_confidence = 0.9, transcribe_time = 7 \<rparr>"]
      C10_no_voiceprint [where cfg = default_config and chunk = "[1, 0]"
        and a = "\<lparr> vad = False, user_voiceprint = None, is_recording = True,
         speech_count = 0, non_user_speech_count = 0 \<rparr>"
        and ?a1.0 = "\<lparr> vad = False, user_voiceprint = None, is_recording = True,
         speech_count = 0, non_user_speech_count = 0 \<rparr>"
        and w = "\<lparr> AUDIO_AVAILABLE = False, stream_read = None, mock_chunk = [1, 0],
         vad_is_speech = (\<lambda>f. None), random_draw = 0.1, randn = [1],
         np_linalg_norm = exact_norm, np_divide = exact_divide, np_dot = exact_dot,
         random_choice = 2, random_confidence = 0.9, transcribe_time = 7 \<rparr>"]
      q n
    by (simp add: capture_audio_chunk_def detect_voice_activity_def transcribe_speech_def
        mock_transcriptions_def)
qed

lemma capture_later_stages:
  "capture_audio_chunk a (w\<lparr>randn := r, random_choice := k, random_confidence := c,
       transcribe_time := t\<rparr>) = capture_audio_chunk a w"
  by (simp add: capture_audio_chunk_def)

lemma detect_later_stages:
  "detect_voice_activity cfg a (w\<lparr>randn := r, random_choice := k, random_confidence := c,
       transcribe_time := t\<rparr>) chunk = detect_voice_activity cfg a w chunk"
  by (simp add: detect_voice_activity_def Let_def)

lemma no_speech_returns_None:
  assumes "capture_audio_chunk a w = Some chunk"
    and "detect_voice_activity cfg a w chunk = Inr (False, a1)"
  shows "process_audio_stream cfg a w = Inr (None, a1)"
  using assms by (simp add: process_audio_stream_def)

text \<open>
  C9. When the detector is present and raises on a frame, voice-activity detection does
  not abort: for a chunk of whole samples that is long enough, it answers with the energy
  heuristic, speech exactly when the root mean square of the samples exceeds 500. When
  the audio libraries or the detector are missing, the answer is a random draw, speech
  when the draw is below 0.2. When a captured frame is found to hold no speech, the
  pipeline returns nothing, whatever the later stages would have drawn.
\<close>

theorem C9_vad_fallback:
  "(AUDIO_AVAILABLE w \<and> vad a
      \<and> (AUDIO_SAMPLE_RATE cfg * 30) div 1000 * 2 \<le> length chunk
      \<and> vad_is_speech w (take ((AUDIO_SAMPLE_RATE cfg * 30) div 1000 * 2) chunk) = None
      \<and> even (length chunk) \<longrightarrow>
        detect_voice_activity cfg a w chunk =
          Inr (decode_int16 chunk \<noteq> [] \<and> 500 < energy (decode_int16 chunk), a))
   \<and> (\<not> AUDIO_AVAILABLE w \<or> \<not> vad a \<longrightarrow>
        detect_voice_activity cfg a w chunk = Inr (random_draw w < 0.2, a))
   \<and> (capture_audio_chunk a w = Some chunk
        \<and> detect_voice_activity cfg a w chunk = Inr (False, a1) \<longrightarrow>
          process_audio_stream cfg a w = Inr (None, a1)
          \<and> process_audio_stream cfg a
                (w\<lparr>randn := r, random_choice := k, random_confidence := c,
                   transcribe_time := t\<rparr>) = Inr (None, a1))"
proof -
  have x: "detect_voice_activity cfg a w chunk =
          Inr (decode_int16 chunk \<noteq> [] \<and> 500 < energy (decode_int16 chunk), a)"
    if "AUDIO_AVAILABLE w" and "vad a"
      and "(AUDIO_SAMPLE_RATE cfg * 30) div 1000 * 2 \<le> length chunk"
      and "vad_is_speech w (take ((AUDIO_SAMPLE_RATE cfg * 30) div 1000 * 2) chunk) = None"
      and "even (length chunk)"
    using that
    by (simp add: detect_voice_activity_def Let_def energy_vad_def frombuffer_int16_def)
  have y: "detect_voice_activity cfg a w chunk = Inr (random_draw w < 0.2, a)"
    if "\<not> AUDIO_AVAILABLE w \<or> \<not> vad a"
    using that by (auto simp: detect_voice_activity_def)
  have z: "process_audio_stream cfg a w = Inr (None, a1)
          \<and> process_audio_stream cfg a
                (w\<lparr>randn := r, random_choice := k, random_confidence := c,
                   transcribe_time := t\<rparr>) = Inr (None, a1)"
    if c: "capture_audio_chunk a w = Some chunk"
      and d: "detect_voice_activity cfg a w chunk = Inr (False, a1)"
  proof
    show "process_audio_stream cfg a w = Inr (None, a1)"
      using c d by (rule no_speech_returns_None)
    show "process_audio_stream cfg a
                (w\<lparr>randn := r, random_choice := k, random_confidence := c,
                   transcribe_time := t\<rparr>) = Inr (None, a1)"
      by (rule no_speech_returns_None [where chunk = chunk])
         (simp_all only: capture_later_stages detect_later_stages c d)
  qed
  from x y z show ?thesis by blast
qed

theorem C9_vad_fallback_witness:
  "detect_voice_activity (default_config\<lparr>AUDIO_SAMPLE_RATE := 100\<rparr>)
       \<lparr> vad = True, user_voiceprint = None, is_recording = True,
         speech_count = 0, non_user_speech_count = 0 \<rparr>
       \<lparr> AUDIO_AVAILABLE = True, stream_read = Some [0xE8, 0x03, 0xE8, 0x03, 0xE8, 0x03], mock_chunk = [0xE8, 0x03, 0xE8, 0x03, 0xE8, 0x03],
         vad_is_speech = (\<lambda>f. None), random_draw = 0.5, randn = [1],
         np_linalg_norm = exact_norm, np_divide = exact_divide, np_dot = exact_dot,
         random_choice = 0, random_confidence = 0.9, transcribe_time = 7 \<rparr>
       [0xE8, 0x03, 0xE8, 0x03, 0xE8, 0x03]
     = Inr (True,
       \<lparr> vad = True, user_voiceprint = None, is_recording = True,
         speech_count = 0, non_user_speech_count = 0 \<rparr>)
   \<and> process_audio_stream (default_config\<lparr>AUDIO_SAMPLE_RATE := 100\<rparr>)
       \<lparr> vad = True, user_voiceprint = None, is_recording = True,
         speech_count = 0, non_user_speech_count = 0 \<rparr>
       \<lparr> AUDIO_AVAILABLE = True, stream_read = Some [0x01, 0x00, 0xFF, 0xFF, 0x00, 0x00], mock_chunk = [0x01, 0x00, 0xFF, 0xFF, 0x00, 0x00],
         vad_is_speech = (\<lambda>f. None), random_draw = 0.5, randn = [1],
         np_linalg_norm = exact_norm, np_divide = exact_divide, np_dot = exact_dot,
         random_choice = 0, random_confidence = 0.9, transcribe_time = 7 \<rparr>
     = Inr (None,
       \<lparr> vad = True, user_voiceprint = None, is_recording = True,
         speech_count = 0, non_user_speech_count = 0 \<rparr>)"
proof -
  have l: "decode_int16 [0xE8, 0x03, 0xE8, 0x03, 0xE8, 0x03] = [1000, 1000, 1000]"
    by (simp add: word_cat_eq)
  have q: "decode_int16 [0x01, 0x00, 0xFF, 0xFF, 0x00, 0x00] = [1, - 1, 0]"
    by (simp add: word_cat_eq)
  have el: "500 < energy [1000, 1000, 1000]"
    by (simp add: energy_threshold)
  have eq: "\<not> 500 < energy [1, - 1, 0]"
    by (simp add: energy_threshold)
  have dl: "detect_voice_activity (default_config\<lparr>AUDIO_SAMPLE_RATE := 100\<rparr>)
       \<lparr> vad = True, user_voiceprint = None, is_recording = True,
         speech_count = 0, non_user_speech_count = 0 \<rparr>
       \<lparr> AUDIO_AVAILABLE = True, stream_read = Some [0xE8, 0x03, 0xE8, 0x03, 0xE8, 0x03], mock_chunk = [0xE8, 0x03, 0xE8, 0x03, 0xE8, 0x03],
         vad_is_speech = (\<lambda>f. None), random_draw = 0.5, randn = [1],
         np_linalg_norm = exact_norm, np_divide = exact_divide, np_dot = exact_dot,
         random_choice = 0, random_confidence = 0.9, transcribe_time = 7 \<rparr>
       [0xE8, 0x03, 0xE8, 0x03, 0xE8, 0x03]
     = Inr (True,
       \<lparr> vad = True, user_voiceprint = None, is_recording = True,
         speech_count = 0, non_user_speech_count = 0 \<rparr>)"
    using C9_vad_fallback [where cfg = "(default_config\<lparr>AUDIO_SAMPLE_RATE := 100\<rparr>)" and chunk = "[0xE8, 0x03, 0xE8, 0x03, 0xE8, 0x03]"
        and a = "\<lparr> vad = True, user_voiceprint = None, is_recording = True,
         speech_count = 0, non_user_speech_count = 0 \<rparr>"
        and w = "\<lparr> AUDIO_AVAILABLE = True, stream_read = Some [0xE8, 0x03, 0xE8, 0x03, 0xE8, 0x03], mock_chunk = [0xE8, 0x03, 0xE8, 0x03, 0xE8, 0x03],
         vad_is_speech = (\<lambda>f. None), random_draw = 0.5, randn = [1],
         np_linalg_norm = exact_norm, np_divide = exact_divide, np_dot = exact_dot,
         random_choice = 0, random_confidence = 0.9, transcribe_time = 7 \<rparr>"]
      l el
    by (simp add: default_config_def)
  have dq: "detect_voice_activity (default_config\<lparr>AUDIO_SAMPLE_RATE := 100\<rparr>)
       \<lparr> vad = True, user_voiceprint = None, is_recording = True,
         speech_count = 0, non_user_speech_count = 0 \<rparr>
       \<lparr> AUDIO_AVAILABLE = True, stream_read = Some [0x01, 0x00, 0xFF, 0xFF, 0x00, 0x00], mock_chunk = [0x01, 0x00, 0xFF, 0xFF, 0x00, 0x00],
         vad_is_speech = (\<lambda>f. None), random_draw = 0.5, randn = [1],
         np_linalg_norm = exact_norm, np_divide = exact_divide, np_dot = exact_dot,
         random_choice = 0, random_confidence = 0.9, transcribe_time = 7 \<rparr>
       [0x01, 0x00, 0xFF, 0xFF, 0x00, 0x00]
     = Inr (False,
       \<lparr> vad = True, user_voiceprint = None, is_recording = True,
         speech_count = 0, non_user_speech_count = 0 \<rparr>)"
    using C9_vad_fallback [where cfg = "(default_config\<lparr>AUDIO_SAMPLE_RATE := 100\<rparr>)" and chunk = "[0x01, 0x00, 0xFF, 0xFF, 0x00, 0x00]"
        and a = "\<lparr> vad = True, user_voiceprint = None, is_recording = True,
         speech_count = 0, non_user_speech_count = 0 \<rparr>"
        and w = "\<lparr> AUDIO_AVAILABLE = True, stream_read = Some [0x01, 0x00, 0xFF, 0xFF, 0x00, 0x00], mock_chunk = [0x01, 0x00, 0xFF, 0xFF, 0x00, 0x00],
         vad_is_speech = (\<lambda>f. None), random_draw = 0.5, randn = [1],
         np_linalg_norm = exact_norm, np_divide = exact_divide, np_dot = exact_dot,
         random_choice = 0, random_confidence = 0.9, transcribe_time = 7 \<rparr>"]
      q eq
    by (simp add: default_config_def)
  have pq: "process_audio_stream (default_config\<lparr>AUDIO_SAMPLE_RATE := 100\<rparr>)
       \<lparr> vad = True, user_voiceprint = None, is_recording = True,
         speech_count = 0, non_user_speech_count = 0 \<rparr>
       \<lparr> AUDIO_AVAILABLE = True, stream_read = Some [0x01, 0x00, 0xFF, 0xFF, 0x00, 0x00], mock_chunk = [0x01, 0x00, 0xFF, 0xFF, 0x00, 0x00],
         vad_is_speech = (\<lambda>f. None), random_draw = 0.5, randn = [1],
         np_linalg_norm = exact_norm, np_divide = exact_divide, np_dot = exact_dot,
         random_choice = 0, random_confidence = 0.9, transcribe_time = 7 \<rparr>
     = Inr (None,
       \<lparr> vad = True, user_voiceprint = None, is_recording = True,
         speech_count = 0, non_user_speech_count = 0 \<rparr>)"
    using C9_vad_fallback [where cfg = "(default_config\<lparr>AUDIO_SAMPLE_RATE := 100\<rparr>)" and chunk = "[0x01, 0x00, 0xFF, 0xFF, 0x00, 0x00]"
        and a = "\<lparr> vad = True, user_voiceprint = None, is_recording = True,
         speech_count = 0, non_user_speech_count = 0 \<rparr>"
        and ?a1.0 = "\<lparr> vad = True, user_voiceprint = None, is_recording = True,
         speech_count = 0, non_user_speech_count = 0 \<rparr>"
        and w = "\<lparr> AUDIO_AVAILABLE = True, stream_read = Some [0x01, 0x00, 0xFF, 0xFF, 0x00, 0x00], mock_chunk = [0x01, 0x00, 0xFF, 0xFF, 0x00, 0x00],
         vad_is_speech = (\<lambda>f. None), random_draw = 0.5, randn = [1],
         np_linalg_norm = exact_norm, np_divide = exact_divide, np_dot = exact_dot,
         random_choice = 0, random_confidence = 0.9, transcribe_time = 7 \<rparr>"]
      dq
    by (simp add: capture_audio_chunk_def)
  from dl pq show ?thesis by blast
qed

text \<open>
  Without the detector a loud frame, which the energy heuristic counts as speech, is
  found to hold no speech when the random draw is 0.5.
\<close>

theorem C9_vad_fallback_counterexample:
  "detect_voice_activity default_config
       \<lparr> vad = False, user_voiceprint = None, is_recording = True,
         speech_count = 0, non_user_speech_count = 0 \<rparr>
       \<lparr> AUDIO_AVAILABLE = False, stream_read = Some [0xE8, 0x03, 0xE8, 0x03, 0xE8, 0x03], mock_chunk = [0xE8, 0x03, 0xE8, 0x03, 0xE8, 0x03],
         vad_is_speech = (\<lambda>f. None), random_draw = 0.5, randn = [1],
         np_linalg_norm = exact_norm, np_divide = exact_divide, np_dot = exact_dot,
         random_choice = 0, random_confidence = 0.9, transcribe_time = 7 \<rparr>
       [0xE8, 0x03, 0xE8, 0x03, 0xE8, 0x03]
     = Inr (False,
       \<lparr> vad = False, user_voiceprint = None, is_recording = True,
         speech_count = 0, non_user_speech_count = 0 \<rparr>)
   \<and> energy_vad [0xE8, 0x03, 0xE8, 0x03, 0xE8, 0x03] = Inr True"
proof -
  have l: "decode_int16 [0xE8, 0x03, 0xE8, 0x03, 0xE8, 0x03] = [1000, 1000, 1000]"
    by (simp add: word_cat_eq)
  have el: "500 < energy [1000, 1000, 1000]"
    by (simp add: energy_threshold)
  have a: "detect_voice_activity default_config
       \<lparr> vad = False, user_voiceprint = None, is_recording = True,
         speech_count = 0, non_user_speech_count = 0 \<rparr>
       \<lparr> AUDIO_AVAILABLE = False, stream_read = Some [0xE8, 0x03, 0xE8, 0x03, 0xE8, 0x03], mock_chunk = [0xE8, 0x03, 0xE8, 0x03, 0xE8, 0x03],
         vad_is_speech = (\<lambda>f. None), random_draw = 0.5, randn = [1],
         np_linalg_norm = exact_norm, np_divide = exact_divide, np_dot = exact_dot,
         random_choice = 0, random_confidence = 0.9, transcribe_time = 7 \<rparr>
       [0xE8, 0x03, 0xE8, 0x03, 0xE8, 0x03]
     = Inr (False,
       \<lparr> vad = False, user_voiceprint = None, is_recording = True,
         speech_count = 0, non_user_speech_count = 0 \<rparr>)"
    by (simp add: detect_voice_activity_def)
  have b: "energy_vad [0xE8, 0x03, 0xE8, 0x03, 0xE8, 0x03] = Inr True"
    using l el by (simp add: energy_vad_def frombuffer_int16_def)
  from a b show ?thesis by blast
qed

subsection \<open>The keyframe gate\<close>

lemma is_keyframe_cold:
  "previous_frame cam = None \<Longrightarrow>
   is_keyframe cfg ssim cam f now =
     ((True, 0), cam\<lparr>previous_frame := Some f, keyframe_count := keyframe_count cam + 1,
                    last_keyframe_time := now\<rparr>)"
  by (simp add: is_keyframe_def)

lemma is_keyframe_warm:
  "previous_frame cam = Some r \<Longrightarrow>
   is_keyframe cfg ssim cam f now =
     ((ssim f r < KEYFRAME_THRESHOLD cfg, ssim f r),
      if ssim f r < KEYFRAME_THRESHOLD cfg
      then cam\<lparr>previous_frame := Some f, keyframe_count := keyframe_count cam + 1,
                last_keyframe_time := now\<rparr>
      else cam)"
  by (simp add: is_keyframe_def Let_def)

lemma gate_run_refines:
  "fst (gate_run cfg ssim cam fts) = fst (spec_gate (KEYFRAME_THRESHOLD cfg) ssim (previous_frame cam) (map fst fts))
   \<and> previous_frame (snd (gate_run cfg ssim cam fts))
       = snd (spec_gate (KEYFRAME_THRESHOLD cfg) ssim (previous_frame cam) (map fst fts))"
proof (induction fts arbitrary: cam)
  case Nil
  show ?case by simp
next
  case (Cons ft fts)
  obtain f now where ft: "ft = (f, now)" by (cases ft)
  show ?case
  proof (cases "previous_frame cam")
    case None
    let ?cam1 = "cam\<lparr>previous_frame := Some f, keyframe_count := keyframe_count cam + 1,
                    last_keyframe_time := now\<rparr>"
    have "previous_frame ?cam1 = Some f" by simp
    with Cons.IH [of ?cam1] None ft show ?thesis
      by (simp add: is_keyframe_cold case_prod_unfold)
  next
    case (Some r)
    show ?thesis
    proof (cases "ssim f r < KEYFRAME_THRESHOLD cfg")
      case True
      let ?cam1 = "cam\<lparr>previous_frame := Some f, keyframe_count := keyframe_count cam + 1,
                    last_keyframe_time := now\<rparr>"
      have "previous_frame ?cam1 = Some f" by simp
      with Cons.IH [of ?cam1] Some True ft show ?thesis
        by (simp add: is_keyframe_warm case_prod_unfold)
    next
      case False
      with Cons.IH [of cam] Some ft show ?thesis
        by (simp add: is_keyframe_warm case_prod_unfold)
    qed
  qed
qed

text \<open>
  C7. With no reference frame, the frame evaluated is a keyframe, with similarity 0, and
  becomes the reference. With a reference, the frame is a keyframe exactly when its
  similarity to the reference is below the threshold, and the reference afterwards is the
  frame when it is a keyframe and the old reference otherwise. With the configured
  threshold 0.85 a frame of similarity 1 is no keyframe and leaves the gate as it was, and
  a frame of similarity 0 or less is one. Over every sequence of frames the decisions of
  the gate and its last reference are those of the specification's gate; from a gate with
  no reference the first decision is a keyframe.
\<close>

theorem C7_keyframe_gate:
  "(previous_frame cam = None \<longrightarrow>
      is_keyframe cfg ssim cam f now =
        ((True, 0), cam\<lparr>previous_frame := Some f, keyframe_count := keyframe_count cam + 1,
                       last_keyframe_time := now\<rparr>))
   \<and> (previous_frame cam = Some r \<longrightarrow>
        fst (fst (is_keyframe cfg ssim cam f now)) = (ssim f r < KEYFRAME_THRESHOLD cfg)
        \<and> snd (fst (is_keyframe cfg ssim cam f now)) = ssim f r
        \<and> previous_frame (snd (is_keyframe cfg ssim cam f now))
            = Some (if ssim f r < KEYFRAME_THRESHOLD cfg then f else r))
   \<and> (previous_frame cam = Some r \<and> ssim f r = 1 \<longrightarrow>
        is_keyframe default_config ssim cam f now = ((False, 1), cam))
   \<and> (previous_frame cam = Some r \<and> ssim f r \<le> 0 \<longrightarrow>
        fst (is_keyframe default_config ssim cam f now) = (True, ssim f r)
        \<and> previous_frame (snd (is_keyframe default_config ssim cam f now)) = Some f)
   \<and> fst (gate_run cfg ssim cam fts)
       = fst (spec_gate (KEYFRAME_THRESHOLD cfg) ssim (previous_frame cam) (map fst fts))
   \<and> previous_frame (snd (gate_run cfg ssim cam fts))
       = snd (spec_gate (KEYFRAME_THRESHOLD cfg) ssim (previous_frame cam) (map fst fts))
   \<and> (previous_frame cam = None \<longrightarrow>
        fst (gate_run cfg ssim cam ((f, now) # fts))
          = True # fst (spec_gate (KEYFRAME_THRESHOLD cfg) ssim (Some f) (map fst fts)))"
proof -
  have a: "previous_frame cam = None \<longrightarrow>
      is_keyframe cfg ssim cam f now =
        ((True, 0), cam\<lparr>previous_frame := Some f, keyframe_count := keyframe_count cam + 1,
                       last_keyframe_time := now\<rparr>)"
    by (simp add: is_keyframe_cold)
  have b: "previous_frame cam = Some r \<longrightarrow>
        fst (fst (is_keyframe cfg ssim cam f now)) = (ssim f r < KEYFRAME_THRESHOLD cfg)
        \<and> snd (fst (is_keyframe cfg ssim cam f now)) = ssim f r
        \<and> previous_frame (snd (is_keyframe cfg ssim cam f now))
            = Some (if ssim f r < KEYFRAME_THRESHOLD cfg then f else r)"
    by (simp add: is_keyframe_warm)
  have c: "previous_frame cam = Some r \<and> ssim f r = 1 \<longrightarrow>
        is_keyframe default_config ssim cam f now = ((False, 1), cam)"
    by (simp add: is_keyframe_warm default_config_def)
  have d: "previous_frame cam = Some r \<and> ssim f r \<le> 0 \<longrightarrow>
        fst (is_keyframe default_config ssim cam f now) = (True, ssim f r)
        \<and> previous_frame (snd (is_keyframe default_config ssim cam f now)) = Some f"
    by (simp add: is_keyframe_warm default_config_def)
  have e: "fst (gate_run cfg ssim cam fts)
       = fst (spec_gate (KEYFRAME_THRESHOLD cfg) ssim (previous_frame cam) (map fst fts))"
    and g: "previous_frame (snd (gate_run cfg ssim cam fts))
       = snd (spec_gate (KEYFRAME_THRESHOLD cfg) ssim (previous_frame cam) (map fst fts))"
    using gate_run_refines [of cfg ssim cam fts] by simp_all
  have h: "previous_frame cam = None \<longrightarrow>
        fst (gate_run cfg ssim cam ((f, now) # fts))
          = True # fst (spec_gate (KEYFRAME_THRESHOLD cfg) ssim (Some f) (map fst fts))"
    using gate_run_refines [of cfg ssim cam "(f, now) # fts"]
    by (simp add: case_prod_unfold)
  from a b c d e g h show ?thesis by blast
qed

theorem C7_keyframe_gate_witness:
  "fst (gate_run default_config (\<lambda>x y. if x = y then 1 else - 1)
       (CameraSubsystem_init :: nat CameraSubsystem)
       [(100, 1), (100, 2), (200, 3), (200, 4)])
     = [True, False, True, False]
   \<and> previous_frame (snd (gate_run default_config (\<lambda>x y. if x = y then 1 else - 1)
       (CameraSubsystem_init :: nat CameraSubsystem)
       [(100, 1), (100, 2), (200, 3), (200, 4)])) = Some 200
   \<and> is_keyframe default_config (\<lambda>x y. if x = y then 1 else - 1)
       \<lparr> cap_opened = True, previous_frame = Some (100 :: nat), frame_count = 1,
         keyframe_count = 1, last_keyframe_time = 1 \<rparr> 100 2
     = ((False, 1),
       \<lparr> cap_opened = True, previous_frame = Some (100 :: nat), frame_count = 1,
         keyframe_count = 1, last_keyframe_time = 1 \<rparr>)
   \<and> fst (is_keyframe default_config (\<lambda>x y. if x = y then 1 else - 1)
       \<lparr> cap_opened = True, previous_frame = Some (100 :: nat), frame_count = 1,
         keyframe_count = 1, last_keyframe_time = 1 \<rparr> 200 2) = (True, - 1)
   \<and> previous_frame (snd (is_keyframe default_config (\<lambda>x y. if x = y then 1 else - 1)
       \<lparr> cap_opened = True, previous_frame = Some (100 :: nat), frame_count = 1,
         keyframe_count = 1, last_keyframe_time = 1 \<rparr> 200 2)) = Some 200"
proof -
  let ?ssim = "\<lambda>x y :: nat. if x = y then 1 else - 1 :: real"
  let ?cam = "CameraSubsystem_init :: nat CameraSubsystem"
  let ?fts = "[(100, 1), (100, 2), (200, 3), (200, 4)] :: (nat \<times> real) list"
  have sg: "spec_gate (KEYFRAME_THRESHOLD default_config) ?ssim (previous_frame ?cam) (map fst ?fts)
      = ([True, False, True, False], Some 200)"
    by (simp add: CameraSubsystem_init_def default_config_def)
  have e: "fst (gate_run default_config ?ssim ?cam ?fts)
      = fst (spec_gate (KEYFRAME_THRESHOLD default_config) ?ssim (previous_frame ?cam) (map fst ?fts))"
    and g: "previous_frame (snd (gate_run default_config ?ssim ?cam ?fts))
      = snd (spec_gate (KEYFRAME_THRESHOLD default_config) ?ssim (previous_frame ?cam) (map fst ?fts))"
    using C7_keyframe_gate [where cfg = default_config and ssim = ?ssim
      and cam = ?cam and fts = ?fts and f = 100 and now = 1 and r = 100]
    by blast+
  have same: "is_keyframe default_config ?ssim
       \<lparr> cap_opened = True, previous_frame = Some (100 :: nat), frame_count = 1,
         keyframe_count = 1, last_keyframe_time = 1 \<rparr> 100 2
     = ((False, 1),
       \<lparr> cap_opened = True, previous_frame = Some (100 :: nat), frame_count = 1,
         keyframe_count = 1, last_keyframe_time = 1 \<rparr>)"
    using C7_keyframe_gate [where cfg = default_config and fts = "[]" and ssim = ?ssim and f = 100 and r = 100 and now = 2
      and cam = "\<lparr> cap_opened = True, previous_frame = Some (100 :: nat), frame_count = 1,
         keyframe_count = 1, last_keyframe_time = 1 \<rparr>"]
    by simp
  have other: "fst (is_keyframe default_config ?ssim
       \<lparr> cap_opened = True, previous_frame = Some (100 :: nat), frame_count = 1,
         keyframe_count = 1, last_keyframe_time = 1 \<rparr> 200 2) = (True, - 1)
   \<and> previous_frame (snd (is_keyframe default_config ?ssim
       \<lparr> cap_opened = True, previous_frame = Some (100 :: nat), frame_count = 1,
         keyframe_count = 1, last_keyframe_time = 1 \<rparr> 200 2)) = Some 200"
    using C7_keyframe_gate [where cfg = default_config and fts = "[]" and ssim = ?ssim and f = 200 and r = 100 and now = 2
      and cam = "\<lparr> cap_opened = True, previous_frame = Some (100 :: nat), frame_count = 1,
         keyframe_count = 1, last_keyframe_time = 1 \<rparr>"]
    by (simp add: default_config_def prod_eq_iff)
  show ?thesis
    unfolding e g sg using same other by simp
qed

subsection \<open>The visual loop\<close>

lemma add_ocr_then_keyframe_items:
  "items (memory_chunks (add_keyframe (add_ocr_event m (ocr_result_dict r) t_ocr)
        [(''ocr_text'', PStr (ocr_text r)), (''confidence'', PFloat (ocr_confidence r))] t_key))
   = items (deque_extend (memory_chunks m)
       ((if ocr_text r = [] then []
         else [\<lparr>chunk_type = ''ocr'',
                 content = [(''text'', PStr (ocr_text r)),
                            (''confidence'', PFloat (ocr_confidence r)),
                            (''word_count'', PInt (int (ocr_word_count r)))],
                 timestamp = t_ocr\<rparr>])
        @ [\<lparr>chunk_type = ''keyframe'',
              content = [(''description'', PStr ''Visual keyframe captured''),
                         (''ocr_text'', PStr (ocr_text r)),
                         (''confidence'', PFloat (ocr_confidence r))],
              timestamp = t_key\<rparr>]))"
  by (simp add: add_keyframe_def add_ocr_event_def ocr_result_dict_def dict_get_def
      MemoryChunk_init_def Let_def)

text \<open>
  C6. When no frame is captured, and when the frame is not a keyframe, the visual loop
  leaves the store as it was, and the OCR subsystem, too: only the camera changes. On a
  keyframe whose recognized text is not judged changed it leaves the store as it was. On
  a keyframe whose recognized text is judged changed it appends an OCR event, when the
  text is not empty, and then a keyframe event. On every keyframe the OCR subsystem is
  the one that \<^verbatim>\<open>extract_text\<close> leaves, which is the one that \<^verbatim>\<open>_text_changed\<close> leaves
  on the recognized text.

  The text is judged changed, when there is no reference text, if it is not blank, and
  otherwise if less than 70 percent of its distinct words occur in the reference text.
  The reference text is the field \<^verbatim>\<open>previous_text\<close>: it is replaced by the new text
  when it is empty and when the new text is judged changed, and kept otherwise. So the
  reference is the text last judged changed, or the first text recognized, and not the
  text of the keyframe before. The counter of changes goes up by one when a text is
  judged changed against a reference that is not empty.
\<close>

theorem C6_visual_loop:
  "(get_frame_with_keyframe_detection cfg ssim (camera a) rd t_gate = (None, cam) \<longrightarrow>
      memory (snd (process_camera_frame cfg ssim ow a rd t_gate t_ocr t_key)) = memory a
      \<and> fst (process_camera_frame cfg ssim ow a rd t_gate t_ocr t_key) = (None, False))
   \<and> (get_frame_with_keyframe_detection cfg ssim (camera a) rd t_gate = (Some (frame, False), cam) \<longrightarrow>
      memory (snd (process_camera_frame cfg ssim ow a rd t_gate t_ocr t_key)) = memory a
      \<and> fst (process_camera_frame cfg ssim ow a rd t_gate t_ocr t_key) = (Some frame, False))
   \<and> (get_frame_with_keyframe_detection cfg ssim (camera a) rd t_gate = (Some (frame, True), cam)
        \<and> \<not> ocr_changed (fst (extract_text cfg ow (ocr a) frame)) \<longrightarrow>
      memory (snd (process_camera_frame cfg ssim ow a rd t_gate t_ocr t_key)) = memory a
      \<and> fst (process_camera_frame cfg ssim ow a rd t_gate t_ocr t_key) = (Some frame, True))
   \<and> (get_frame_with_keyframe_detection cfg ssim (camera a) rd t_gate = (Some (frame, True), cam)
        \<and> ocr_changed (fst (extract_text cfg ow (ocr a) frame))
        \<and> r = fst (extract_text cfg ow (ocr a) frame) \<longrightarrow>
      fst (process_camera_frame cfg ssim ow a rd t_gate t_ocr t_key) = (Some frame, True)
      \<and> memory (snd (process_camera_frame cfg ssim ow a rd t_gate t_ocr t_key))
          = add_keyframe (add_ocr_event (memory a) (ocr_result_dict r) t_ocr)
              [(''ocr_text'', PStr (ocr_text r)), (''confidence'', PFloat (ocr_confidence r))]
              t_key
      \<and> items (memory_chunks (memory (snd (process_camera_frame cfg ssim ow a rd t_gate t_ocr t_key))))
          = items (deque_extend (memory_chunks (memory a))
              ((if ocr_text r = [] then []
                else [\<lparr>chunk_type = ''ocr'',
                        content = [(''text'', PStr (ocr_text r)),
                                   (''confidence'', PFloat (ocr_confidence r)),
                                   (''word_count'', PInt (int (ocr_word_count r)))],
                        timestamp = t_ocr\<rparr>])
               @ [\<lparr>chunk_type = ''keyframe'',
                     content = [(''description'', PStr ''Visual keyframe captured''),
                                (''ocr_text'', PStr (ocr_text r)),
                                (''confidence'', PFloat (ocr_confidence r))],
                     timestamp = t_key\<rparr>])))
   \<and> ocr_changed (fst (extract_text cfg ow oc frame))
       = fst (text_changed oc (fst (recognize cfg ow frame)))
   \<and> (previous_text oc = [] \<longrightarrow> fst (text_changed oc new_text) = (py_strip new_text \<noteq> []))
   \<and> (previous_text oc \<noteq> [] \<longrightarrow>
        fst (text_changed oc new_text)
          = (real (card (set (py_split new_text) \<inter> set (py_split (previous_text oc))))
             / real (max (card (set (py_split new_text))) 1) < 0.7))
   \<and> (get_frame_with_keyframe_detection cfg ssim (camera a) rd t_gate = (None, cam)
         \<or> get_frame_with_keyframe_detection cfg ssim (camera a) rd t_gate
             = (Some (frame, False), cam) \<longrightarrow>
        snd (process_camera_frame cfg ssim ow a rd t_gate t_ocr t_key) = a\<lparr>camera := cam\<rparr>)
   \<and> (get_frame_with_keyframe_detection cfg ssim (camera a) rd t_gate = (Some (frame, True), cam)
        \<and> \<not> ocr_changed (fst (extract_text cfg ow (ocr a) frame)) \<longrightarrow>
        snd (process_camera_frame cfg ssim ow a rd t_gate t_ocr t_key)
          = a\<lparr>camera := cam, ocr := snd (extract_text cfg ow (ocr a) frame),
               current_keyframe := Some frame\<rparr>)
   \<and> (get_frame_with_keyframe_detection cfg ssim (camera a) rd t_gate = (Some (frame, True), cam)
        \<and> ocr_changed (fst (extract_text cfg ow (ocr a) frame))
        \<and> r = fst (extract_text cfg ow (ocr a) frame) \<longrightarrow>
        snd (process_camera_frame cfg ssim ow a rd t_gate t_ocr t_key)
          = a\<lparr>camera := cam, ocr := snd (extract_text cfg ow (ocr a) frame),
               current_ocr_text := ocr_text r,
               memory :=
                 add_keyframe (add_ocr_event (memory a) (ocr_result_dict r) t_ocr)
                   [(''ocr_text'', PStr (ocr_text r)),
                    (''confidence'', PFloat (ocr_confidence r))]
                   t_key,
               current_keyframe := Some frame\<rparr>)
   \<and> ocr_text (fst (extract_text cfg ow oc frame)) = fst (recognize cfg ow frame)
   \<and> snd (extract_text cfg ow oc frame) = snd (text_changed oc (fst (recognize cfg ow frame)))
   \<and> previous_text (snd (text_changed oc new_text))
       = (if previous_text oc = [] \<or> fst (text_changed oc new_text) then new_text
          else previous_text oc)
   \<and> text_changes (snd (text_changed oc new_text))
       = (if previous_text oc \<noteq> [] \<and> fst (text_changed oc new_text)
          then text_changes oc + 1 else text_changes oc)"
proof -
  let ?g = "get_frame_with_keyframe_detection cfg ssim (camera a) rd t_gate"
  let ?p = "process_camera_frame cfg ssim ow a rd t_gate t_ocr t_key"
  have c1: "?g = (None, cam) \<longrightarrow> memory (snd ?p) = memory a \<and> fst ?p = (None, False)"
    by (simp add: process_camera_frame_def)
  have c2: "?g = (Some (frame, False), cam) \<longrightarrow>
      memory (snd ?p) = memory a \<and> fst ?p = (Some frame, False)"
    by (simp add: process_camera_frame_def)
  have c3: "?g = (Some (frame, True), cam)
        \<and> \<not> ocr_changed (fst (extract_text cfg ow (ocr a) frame)) \<longrightarrow>
      memory (snd ?p) = memory a \<and> fst ?p = (Some frame, True)"
    by (simp add: process_camera_frame_def case_prod_unfold Let_def)
  have c4a: "?g = (Some (frame, True), cam)
        \<and> ocr_changed (fst (extract_text cfg ow (ocr a) frame))
        \<and> r = fst (extract_text cfg ow (ocr a) frame) \<longrightarrow>
      fst ?p = (Some frame, True)
      \<and> memory (snd ?p)
          = add_keyframe (add_ocr_event (memory a) (ocr_result_dict r) t_ocr)
              [(''ocr_text'', PStr (ocr_text r)), (''confidence'', PFloat (ocr_confidence r))]
              t_key"
    by (simp add: process_camera_frame_def case_prod_unfold Let_def)
  have c5: "ocr_changed (fst (extract_text cfg ow oc frame))
       = fst (text_changed oc (fst (recognize cfg ow frame)))"
    by (simp add: extract_text_def case_prod_unfold)
  have c6: "previous_text oc = [] \<longrightarrow> fst (text_changed oc new_text) = (py_strip new_text \<noteq> [])"
    by (simp add: text_changed_def)
  have c7: "previous_text oc \<noteq> [] \<longrightarrow>
        fst (text_changed oc new_text)
          = (real (card (set (py_split new_text) \<inter> set (py_split (previous_text oc))))
             / real (max (card (set (py_split new_text))) 1) < 0.7)"
    by (simp add: text_changed_def Let_def)
  have c4: "?g = (Some (frame, True), cam)
        \<and> ocr_changed (fst (extract_text cfg ow (ocr a) frame))
        \<and> r = fst (extract_text cfg ow (ocr a) frame) \<longrightarrow>
      fst ?p = (Some frame, True)
      \<and> memory (snd ?p)
          = add_keyframe (add_ocr_event (memory a) (ocr_result_dict r) t_ocr)
              [(''ocr_text'', PStr (ocr_text r)), (''confidence'', PFloat (ocr_confidence r))]
              t_key
      \<and> items (memory_chunks (memory (snd ?p)))
          = items (deque_extend (memory_chunks (memory a))
              ((if ocr_text r = [] then []
                else [\<lparr>chunk_type = ''ocr'',
                        content = [(''text'', PStr (ocr_text r)),
                                   (''confidence'', PFloat (ocr_confidence r)),
                                   (''word_count'', PInt (int (ocr_word_count r)))],
                        timestamp = t_ocr\<rparr>])
               @ [\<lparr>chunk_type = ''keyframe'',
                     content = [(''description'', PStr ''Visual keyframe captured''),
                                (''ocr_text'', PStr (ocr_text r)),
                                (''confidence'', PFloat (ocr_confidence r))],
                     timestamp = t_key\<rparr>]))"
  proof (intro impI)
    assume h: "?g = (Some (frame, True), cam)
        \<and> ocr_changed (fst (extract_text cfg ow (ocr a) frame))
        \<and> r = fst (extract_text cfg ow (ocr a) frame)"
    with c4a have f: "fst ?p = (Some frame, True)"
      and m: "memory (snd ?p)
          = add_keyframe (add_ocr_event (memory a) (ocr_result_dict r) t_ocr)
              [(''ocr_text'', PStr (ocr_text r)), (''confidence'', PFloat (ocr_confidence r))]
              t_key"
      by blast+
    show "fst ?p = (Some frame, True)
      \<and> memory (snd ?p)
          = add_keyframe (add_ocr_event (memory a) (ocr_result_dict r) t_ocr)
              [(''ocr_text'', PStr (ocr_text r)), (''confidence'', PFloat (ocr_confidence r))]
              t_key
      \<and> items (memory_chunks (memory (snd ?p)))
          = items (deque_extend (memory_chunks (memory a))
              ((if ocr_text r = [] then []
                else [\<lparr>chunk_type = ''ocr'',
                        content = [(''text'', PStr (ocr_text r)),
                                   (''confidence'', PFloat (ocr_confidence r)),
                                   (''word_count'', PInt (int (ocr_word_count r)))],
                        timestamp = t_ocr\<rparr>])
               @ [\<lparr>chunk_type = ''keyframe'',
                     content = [(''description'', PStr ''Visual keyframe captured''),
                                (''ocr_text'', PStr (ocr_text r)),
                                (''confidence'', PFloat (ocr_confidence r))],
                     timestamp = t_key\<rparr>]))"
      using f m add_ocr_then_keyframe_items [of "memory a" r t_ocr t_key] by (simp only:)
  qed
  have c8: "?g = (None, cam) \<or> ?g = (Some (frame, False), cam) \<longrightarrow>
        snd ?p = a\<lparr>camera := cam\<rparr>"
    by (auto simp: process_camera_frame_def)
  have c9: "?g = (Some (frame, True), cam)
        \<and> \<not> ocr_changed (fst (extract_text cfg ow (ocr a) frame)) \<longrightarrow>
        snd ?p = a\<lparr>camera := cam, ocr := snd (extract_text cfg ow (ocr a) frame),
               current_keyframe := Some frame\<rparr>"
    by (simp add: process_camera_frame_def case_prod_unfold Let_def)
  have c10: "?g = (Some (frame, True), cam)
        \<and> ocr_changed (fst (extract_text cfg ow (ocr a) frame))
        \<and> r = fst (extract_text cfg ow (ocr a) frame) \<longrightarrow>
        snd ?p = a\<lparr>camera := cam, ocr := snd (extract_text cfg ow (ocr a) frame),
               current_ocr_text := ocr_text r,
               memory :=
                 add_keyframe (add_ocr_event (memory a) (ocr_result_dict r) t_ocr)
                   [(''ocr_text'', PStr (ocr_text r)),
                    (''confidence'', PFloat (ocr_confidence r))]
                   t_key,
               current_keyframe := Some frame\<rparr>"
    by (simp add: process_camera_frame_def case_prod_unfold Let_def)
  have c11: "ocr_text (fst (extract_text cfg ow oc frame)) = fst (recognize cfg ow frame)"
    by (simp add: extract_text_def case_prod_unfold)
  have c12: "snd (extract_text cfg ow oc frame)
      = snd (text_changed oc (fst (recognize cfg ow frame)))"
    by (simp add: extract_text_def case_prod_unfold)
  have c13: "previous_text (snd (text_changed oc new_text))
       = (if previous_text oc = [] \<or> fst (text_changed oc new_text) then new_text
          else previous_text oc)"
    by (simp add: text_changed_def Let_def)
  have c14: "text_changes (snd (text_changed oc new_text))
       = (if previous_text oc \<noteq> [] \<and> fst (text_changed oc new_text)
          then text_changes oc + 1 else text_changes oc)"
    by (simp add: text_changed_def Let_def)
  show ?thesis
    by (intro conjI c1 c2 c3 c4 c5 c6 c7 c8 c9 c10 c11 c12 c13 c14)
qed

text \<open>
  A keyframe on which the recognized text is the previous text: the loop reports the
  keyframe and appends no event. And three texts in a row, \<^verbatim>\<open>a b c\<close>, \<^verbatim>\<open>a\<close> and
  \<^verbatim>\<open>b c\<close>: the second is not judged changed, so the reference stays \<^verbatim>\<open>a b c\<close>, and
  the third is not judged changed either, although it shares no word with the second.
\<close>

lemma split_abc:
  "py_split ''a b c'' = [''a'', ''b'', ''c'']" "py_split ''a'' = [''a'']"
  "py_split ''b c'' = [''b'', ''c'']"
  by code_simp+

lemma reference_kept:
  "text_changed \<lparr> previous_text = ''a b c'', text_changes = 0 \<rparr> ''a''
     = (False, \<lparr> previous_text = ''a b c'', text_changes = 0 \<rparr>)"
  "text_changed \<lparr> previous_text = ''a b c'', text_changes = 0 \<rparr> ''b c''
     = (False, \<lparr> previous_text = ''a b c'', text_changes = 0 \<rparr>)"
  "real (card (set (py_split ''b c'') \<inter> set (py_split ''a'')))
     / real (max (card (set (py_split ''b c''))) 1) = 0"
  by (simp_all add: text_changed_def split_abc card_insert_if)

lemma split_console:
  "py_split ''Console output: Processing complete''
     = [''Console'', ''output:'', ''Processing'', ''complete'']"
  by code_simp

lemma strip_console:
  "py_strip ''Console output: Processing complete'' = ''Console output: Processing complete''"
  by code_simp

lemma gate_two:
  "get_frame_with_keyframe_detection default_config (\<lambda>x y :: nat. if x = y then 1 else 0)
       (camera \<lparr> camera = \<lparr> cap_opened = True, previous_frame = Some 1, frame_count = 1,
                    keyframe_count = 1, last_keyframe_time = 1 \<rparr>,
         ocr = \<lparr> previous_text = ''Console output: Processing complete'', text_changes = 0 \<rparr>,
         memory = MemorySubsystem_init default_config 0 0,
         current_keyframe = Some 1, current_ocr_text = ''Console output: Processing complete'' \<rparr>) (Some 2) 2
     = (Some (2, True),
        \<lparr> cap_opened = True, previous_frame = Some 2, frame_count = 2,
          keyframe_count = 2, last_keyframe_time = 2 \<rparr>)"
  by (simp add: get_frame_with_keyframe_detection_def capture_frame_def is_keyframe_def
      default_config_def)

lemma same_text_unchanged:
  "extract_text default_config
       \<lparr> TESSERACT_AVAILABLE = False, image_to_data = (\<lambda>f. None),
         brightness = (\<lambda>f :: nat. 50) \<rparr>
       (ocr \<lparr> camera = \<lparr> cap_opened = True, previous_frame = Some 1, frame_count = 1,
                    keyframe_count = 1, last_keyframe_time = 1 \<rparr>,
         ocr = \<lparr> previous_text = ''Console output: Processing complete'', text_changes = 0 \<rparr>,
         memory = MemorySubsystem_init default_config 0 0,
         current_keyframe = Some 1, current_ocr_text = ''Console output: Processing complete'' \<rparr>) 2
     = (\<lparr> ocr_text = ''Console output: Processing complete'', ocr_confidence = 0.95,
          ocr_changed = False, ocr_word_count = 4 \<rparr>,
        \<lparr> previous_text = ''Console output: Processing complete'', text_changes = 0 \<rparr>)"
  by (simp add: extract_text_def recognize_def mock_ocr_def text_changed_def split_console
      card_insert_if)

theorem C6_visual_loop_counterexample:
  "fst (process_camera_frame default_config (\<lambda>x y :: nat. if x = y then 1 else 0)
       \<lparr> TESSERACT_AVAILABLE = False, image_to_data = (\<lambda>f. None),
         brightness = (\<lambda>f :: nat. 50) \<rparr>
       \<lparr> camera = \<lparr> cap_opened = True, previous_frame = Some 1, frame_count = 1,
                    keyframe_count = 1, last_keyframe_time = 1 \<rparr>,
         ocr = \<lparr> previous_text = ''Console output: Processing complete'', text_changes = 0 \<rparr>,
         memory = MemorySubsystem_init default_config 0 0,
         current_keyframe = Some 1, current_ocr_text = ''Console output: Processing complete'' \<rparr> (Some 2) 2 3 4) = (Some 2, True)
   \<and> items (memory_chunks (memory (snd (process_camera_frame default_config (\<lambda>x y :: nat. if x = y then 1 else 0)
       \<lparr> TESSERACT_AVAILABLE = False, image_to_data = (\<lambda>f. None),
         brightness = (\<lambda>f :: nat. 50) \<rparr>
       \<lparr> camera = \<lparr> cap_opened = True, previous_frame = Some 1, frame_count = 1,
                    keyframe_count = 1, last_keyframe_time = 1 \<rparr>,
         ocr = \<lparr> previous_text = ''Console output: Processing complete'', text_changes = 0 \<rparr>,
         memory = MemorySubsystem_init default_config 0 0,
         current_keyframe = Some 1, current_ocr_text = ''Console output: Processing complete'' \<rparr> (Some 2) 2 3 4)))) = []
   \<and> text_changed \<lparr> previous_text = ''a b c'', text_changes = 0 \<rparr> ''a''
       = (False, \<lparr> previous_text = ''a b c'', text_changes = 0 \<rparr>)
   \<and> text_changed \<lparr> previous_text = ''a b c'', text_changes = 0 \<rparr> ''b c''
       = (False, \<lparr> previous_text = ''a b c'', text_changes = 0 \<rparr>)
   \<and> real (card (set (py_split ''b c'') \<inter> set (py_split ''a'')))
       / real (max (card (set (py_split ''b c''))) 1) < 0.7"
  using gate_two same_text_unchanged reference_kept
  by (simp add: process_camera_frame_def MemorySubsystem_init_def)

lemma gate_two_cold:
  "get_frame_with_keyframe_detection default_config (\<lambda>x y :: nat. if x = y then 1 else 0)
       (camera \<lparr> camera = \<lparr> cap_opened = True, previous_frame = Some 1, frame_count = 1,
                    keyframe_count = 1, last_keyframe_time = 1 \<rparr>,
         ocr = \<lparr> previous_text = [], text_changes = 0 \<rparr>,
         memory = MemorySubsystem_init default_config 0 0,
         current_keyframe = Some 1, current_ocr_text = [] \<rparr>) (Some 2) 2
     = (Some (2, True),
        \<lparr> cap_opened = True, previous_frame = Some 2, frame_count = 2,
          keyframe_count = 2, last_keyframe_time = 2 \<rparr>)"
  by (simp add: get_frame_with_keyframe_detection_def capture_frame_def is_keyframe_def
      default_config_def)

lemma first_text_changed:
  "extract_text default_config
       \<lparr> TESSERACT_AVAILABLE = False, image_to_data = (\<lambda>f. None),
         brightness = (\<lambda>f :: nat. 50) \<rparr>
       (ocr \<lparr> camera = \<lparr> cap_opened = True, previous_frame = Some 1, frame_count = 1,
                    keyframe_count = 1, last_keyframe_time = 1 \<rparr>,
         ocr = \<lparr> previous_text = [], text_changes = 0 \<rparr>,
         memory = MemorySubsystem_init default_config 0 0,
         current_keyframe = Some 1, current_ocr_text = [] \<rparr>) 2
     = (\<lparr> ocr_text = ''Console output: Processing complete'', ocr_confidence = 0.95,
          ocr_changed = True, ocr_word_count = 4 \<rparr>,
        \<lparr> previous_text = ''Console output: Processing complete'', text_changes = 0 \<rparr>)"
  by (simp add: extract_text_def recognize_def mock_ocr_def text_changed_def split_console
      strip_console)

theorem C6_visual_loop_witness:
  "items (memory_chunks (memory (snd (process_camera_frame default_config (\<lambda>x y :: nat. if x = y then 1 else 0)
       \<lparr> TESSERACT_AVAILABLE = False, image_to_data = (\<lambda>f. None),
         brightness = (\<lambda>f :: nat. 50) \<rparr>
       \<lparr> camera = \<lparr> cap_opened = True, previous_frame = Some 1, frame_count = 1,
                    keyframe_count = 1, last_keyframe_time = 1 \<rparr>,
         ocr = \<lparr> previous_text = [], text_changes = 0 \<rparr>,
         memory = MemorySubsystem_init default_config 0 0,
         current_keyframe = Some 1, current_ocr_text = [] \<rparr> (Some 2) 2 3 4))))
     = [\<lparr>chunk_type = ''ocr'',
          content = [(''text'', PStr ''Console output: Processing complete''),
                     (''confidence'', PFloat 0.95), (''word_count'', PInt 4)],
          timestamp = 3\<rparr>,
        \<lparr>chunk_type = ''keyframe'',
          content = [(''description'', PStr ''Visual keyframe captured''),
                     (''ocr_text'', PStr ''Console output: Processing complete''),
                     (''confidence'', PFloat 0.95)],
          timestamp = 4\<rparr>]
   \<and> ocr (snd (process_camera_frame default_config (\<lambda>x y :: nat. if x = y then 1 else 0)
       \<lparr> TESSERACT_AVAILABLE = False, image_to_data = (\<lambda>f. None),
         brightness = (\<lambda>f :: nat. 50) \<rparr>
       \<lparr> camera = \<lparr> cap_opened = True, previous_frame = Some 1, frame_count = 1,
                    keyframe_count = 1, last_keyframe_time = 1 \<rparr>,
         ocr = \<lparr> previous_text = [], text_changes = 0 \<rparr>,
         memory = MemorySubsystem_init default_config 0 0,
         current_keyframe = Some 1, current_ocr_text = [] \<rparr> (Some 2) 2 3 4))
     = \<lparr> previous_text = ''Console output: Processing complete'', text_changes = 0 \<rparr>"
proof -
  let ?a = "\<lparr> camera = \<lparr> cap_opened = True, previous_frame = Some 1, frame_count = 1,
                    keyframe_count = 1, last_keyframe_time = 1 \<rparr>,
         ocr = \<lparr> previous_text = [], text_changes = 0 \<rparr>,
         memory = MemorySubsystem_init default_config 0 0,
         current_keyframe = Some 1, current_ocr_text = [] \<rparr>"
  let ?ow = "\<lparr> TESSERACT_AVAILABLE = False, image_to_data = (\<lambda>f. None),
         brightness = (\<lambda>f :: nat. 50) \<rparr>"
  let ?r = "\<lparr> ocr_text = ''Console output: Processing complete'', ocr_confidence = 0.95,
          ocr_changed = True, ocr_word_count = 4 \<rparr>"
  let ?cam = "\<lparr> cap_opened = True, previous_frame = Some (2 :: nat), frame_count = 2,
          keyframe_count = 2, last_keyframe_time = 2 \<rparr>"
  have h: "get_frame_with_keyframe_detection default_config (\<lambda>x y :: nat. if x = y then 1 else 0) (camera ?a) (Some 2) 2
        = (Some (2, True), ?cam)
      \<and> ocr_changed (fst (extract_text default_config ?ow (ocr ?a) 2))
      \<and> ?r = fst (extract_text default_config ?ow (ocr ?a) 2)"
    by (simp only: gate_two_cold first_text_changed) simp
  note c = C6_visual_loop [where cfg = default_config and ssim = "(\<lambda>x y :: nat. if x = y then 1 else 0)"
      and ow = ?ow and a = ?a
      and rd = "Some 2" and t_gate = 2 and t_ocr = 3 and t_key = 4 and frame = 2
      and cam = ?cam and r = ?r
      and oc = "\<lparr> previous_text = [], text_changes = 0 \<rparr>"
      and new_text = "''Console output: Processing complete''",
      THEN conjunct2, THEN conjunct2, THEN conjunct2, THEN conjunct1, THEN mp, OF h,
      THEN conjunct2, THEN conjunct2]
  note d = C6_visual_loop [where cfg = default_config and ssim = "(\<lambda>x y :: nat. if x = y then 1 else 0)"
      and ow = ?ow and a = ?a
      and rd = "Some 2" and t_gate = 2 and t_ocr = 3 and t_key = 4 and frame = 2
      and cam = ?cam and r = ?r
      and oc = "\<lparr> previous_text = [], text_changes = 0 \<rparr>"
      and new_text = "''Console output: Processing complete''",
      THEN conjunct2, THEN conjunct2, THEN conjunct2, THEN conjunct2, THEN conjunct2,
      THEN conjunct2, THEN conjunct2, THEN conjunct2, THEN conjunct2, THEN conjunct1,
      THEN mp, OF h]
  have e: "snd (extract_text default_config ?ow (ocr ?a) 2)
      = \<lparr> previous_text = ''Console output: Processing complete'', text_changes = 0 \<rparr>"
    by (simp only: first_text_changed snd_conv)
  have items: "items (memory_chunks (memory (snd (process_camera_frame default_config
        (\<lambda>x y :: nat. if x = y then 1 else 0) ?ow ?a (Some 2) 2 3 4))))
     = [\<lparr>chunk_type = ''ocr'',
          content = [(''text'', PStr ''Console output: Processing complete''),
                     (''confidence'', PFloat 0.95), (''word_count'', PInt 4)],
          timestamp = 3\<rparr>,
        \<lparr>chunk_type = ''keyframe'',
          content = [(''description'', PStr ''Visual keyframe captured''),
                     (''ocr_text'', PStr ''Console output: Processing complete''),
                     (''confidence'', PFloat 0.95)],
          timestamp = 4\<rparr>]"
    unfolding c
    by (simp add: MemorySubsystem_init_def default_config_def deque_append_def)
  have state: "ocr (snd (process_camera_frame default_config
        (\<lambda>x y :: nat. if x = y then 1 else 0) ?ow ?a (Some 2) 2 3 4))
     = \<lparr> previous_text = ''Console output: Processing complete'', text_changes = 0 \<rparr>"
    unfolding d e by simp
  from items state show ?thesis by (rule conjI)
qed

end
